theory Spec2Isabelle
  imports Main
begin

section \<open>Python values, exceptions and the outside world\<close>

text \<open>
  The exceptions the dashboard can meet, all of them instances of Python's
  \<open>Exception\<close>. The first four are the classes of \<open>requests\<close> that derive
  from \<open>requests.RequestException\<close>.
\<close>

datatype exn_class =
  ConnectionError | Timeout | HTTPError | InvalidJSONError
  | KeyError | TypeError | IndexError | ValueError | OSError | RuntimeError

datatype exn = Exn exn_class string

fun exn_class_of :: "exn \<Rightarrow> exn_class" where
  "exn_class_of (Exn c m) = c"

fun exn_str :: "exn \<Rightarrow> string" where
  "exn_str (Exn c m) = m"

fun is_RequestException :: "exn \<Rightarrow> bool" where
  "is_RequestException (Exn ConnectionError m) = True"
| "is_RequestException (Exn Timeout m) = True"
| "is_RequestException (Exn HTTPError m) = True"
| "is_RequestException (Exn InvalidJSONError m) = True"
| "is_RequestException (Exn c m) = False"

text \<open>\<open>except Exception\<close> catches every exception of the model.\<close>

definition is_Exception :: "exn \<Rightarrow> bool" where
  "is_Exception e = True"

text \<open>
  A Python value as the program handles it: what \<open>response.json()\<close> returns, plus
  \<open>datetime\<close> objects. A float is identified by its \<open>repr\<close>.
\<close>

datatype pyval =
  PNone | PBool bool | PInt int | PFloat string | PStr string
  | PList "pyval list" | PDict "(string \<times> pyval) list" | PDatetime string

text \<open>
  An f-string is kept as its pieces, literal text and formatted values, since the source
  formats values it never inspects.
\<close>

datatype piece = Lit string | Val pyval

type_synonym fstring = "piece list"

datatype key = KStr string | KInt int

definition quoted :: "string \<Rightarrow> string" where
  "quoted k = [CHR 0x27] @ k @ [CHR 0x27]"

text \<open>
  Indexing a sequence with an integer: from the front for \<open>0, 1, \<dots>\<close>, from the back
  for \<open>-1, -2, \<dots>\<close>, nothing outside.
\<close>

definition py_index :: "'a list \<Rightarrow> int \<Rightarrow> 'a option" where
  "py_index xs i =
     (if 0 \<le> i \<and> i < int (length xs) then Some (xs ! nat i)
      else if i < 0 \<and> - int (length xs) \<le> i then Some (xs ! nat (int (length xs) + i))
      else None)"

text \<open>Subscription \<open>v[k]\<close>, with the exception Python raises where it fails.\<close>

fun getitem :: "pyval \<Rightarrow> key \<Rightarrow> exn + pyval" where
  "getitem (PDict kvs) (KStr k) =
     (case map_of kvs k of
        Some v \<Rightarrow> Inr v
      | None \<Rightarrow> Inl (Exn KeyError (quoted k)))"
| "getitem (PDict kvs) (KInt i) = Inl (Exn KeyError ''int'')"
| "getitem (PList xs) (KInt i) =
     (case py_index xs i of
        Some v \<Rightarrow> Inr v
      | None \<Rightarrow> Inl (Exn IndexError ''list index out of range''))"
| "getitem (PList xs) (KStr k) =
     Inl (Exn TypeError ''list indices must be integers or slices, not str'')"
| "getitem (PStr s) (KInt i) =
     (case py_index s i of
        Some c \<Rightarrow> Inr (PStr [c])
      | None \<Rightarrow> Inl (Exn IndexError ''string index out of range''))"
| "getitem (PStr s) (KStr k) = Inl (Exn TypeError ''string indices must be integers'')"
| "getitem v k = Inl (Exn TypeError ''object is not subscriptable'')"

text \<open>Iteration \<open>for x in v\<close>: the elements, or the TypeError of a value that has none.\<close>

fun py_iter :: "pyval \<Rightarrow> exn + pyval list" where
  "py_iter (PList xs) = Inr xs"
| "py_iter (PDict kvs) = Inr (map (\<lambda>kv. PStr (fst kv)) kvs)"
| "py_iter (PStr s) = Inr (map (\<lambda>c. PStr [c]) s)"
| "py_iter v = Inl (Exn TypeError ''object is not iterable'')"

text \<open>Truth value of \<open>if v:\<close>.\<close>

fun truthy :: "pyval \<Rightarrow> bool" where
  "truthy PNone = False"
| "truthy (PBool b) = b"
| "truthy (PInt i) = (i \<noteq> 0)"
| "truthy (PFloat r) = (r \<noteq> ''0.0'' \<and> r \<noteq> ''-0.0'')"
| "truthy (PStr s) = (s \<noteq> [])"
| "truthy (PList xs) = (xs \<noteq> [])"
| "truthy (PDict kvs) = (kvs \<noteq> [])"
| "truthy (PDatetime t) = True"

definition ebind :: "exn + 'a \<Rightarrow> ('a \<Rightarrow> exn + 'b) \<Rightarrow> exn + 'b" where
  "ebind m f = (case m of Inl e \<Rightarrow> Inl e | Inr x \<Rightarrow> f x)"

fun emap :: "('a \<Rightarrow> exn + 'b) \<Rightarrow> 'a list \<Rightarrow> exn + 'b list" where
  "emap f [] = Inr []"
| "emap f (x # xs) = ebind (f x) (\<lambda>y. ebind (emap f xs) (\<lambda>ys. Inr (y # ys)))"

subsection \<open>HTTP, as \<open>requests\<close> presents it\<close>

record request =
  url :: fstring
  params :: "(string \<times> pyval) list"

text \<open>
  A response: its status code, what \<open>.json()\<close> gives (the parsed body or the exception
  of a malformed one) and what decoding \<open>.content\<close> as an image gives.
\<close>

record response =
  status_code :: nat
  json :: "exn + pyval"
  picture :: "exn + string"

text \<open>
  \<open>Response.raise_for_status\<close> of \<open>requests\<close>: an HTTPError for the 4xx and 5xx codes.
\<close>

definition raise_for_status :: "response \<Rightarrow> exn + unit" where
  "raise_for_status r =
     (if 400 \<le> status_code r \<and> status_code r < 600
      then Inl (Exn HTTPError ''Client or Server Error'') else Inr ())"

text \<open>
  What the outside world does during one refresh cycle: the outcome of every HTTP GET,
  the clock, whether a string is ISO-formatted, and the exceptions of drawing the chart
  and of writing the CSV file.
\<close>

record world =
  http_get :: "request \<Rightarrow> exn + response"
  now :: string
  iso_ok :: "string \<Rightarrow> bool"
  draw_raises :: "exn option"
  to_csv_raises :: "exn option"

section \<open>Weatherdashboard.py\<close>

record WeatherData =
  temperature :: pyval
  condition :: pyval
  humidity :: pyval
  wind_speed :: pyval
  pressure :: pyval
  feels_like :: pyval
  icon_url :: fstring

datatype csv_line = Header "string list" | Row "pyval list"

datatype fetch_event = FetchBegin string | FetchEnd string

text \<open>
  The application object and the files it writes. \<open>http_log\<close>, \<open>fetch_log\<close> and
  \<open>status_log\<close> record, in order, the HTTP requests issued, the entries into and exits
  from \<open>get_weather\<close>, and the texts given to \<open>status_var\<close>.
\<close>

record dashboard =
  base_url :: string
  api_key :: string
  city_var :: string
  update_queue :: "string list"
  unfinished_tasks :: nat
  status_var :: string
  temp_var :: fstring
  condition_var :: fstring
  humidity_var :: fstring
  wind_var :: fstring
  pressure_var :: fstring
  icon_label :: "string option"
  ax_plot :: "pyval list \<times> pyval list"
  warnings :: "string list"
  history_file :: "csv_line list option"
  logged :: "string list"
  http_log :: "request list"
  fetch_log :: "fetch_event list"
  status_log :: "string list"

subsection \<open>Statements that may raise\<close>

type_synonym ('s, 'a) io = "'s \<Rightarrow> (exn + 'a) \<times> 's"

definition io_return :: "'a \<Rightarrow> ('s, 'a) io" where
  "io_return x = (\<lambda>s. (Inr x, s))"

definition io_lift :: "exn + 'a \<Rightarrow> ('s, 'a) io" where
  "io_lift r = (\<lambda>s. (r, s))"

definition io_modify :: "('s \<Rightarrow> 's) \<Rightarrow> ('s, unit) io" where
  "io_modify f = (\<lambda>s. (Inr (), f s))"

definition io_bind :: "('s, 'a) io \<Rightarrow> ('a \<Rightarrow> ('s, 'b) io) \<Rightarrow> ('s, 'b) io" where
  "io_bind m f = (\<lambda>s. case m s of (Inl e, s') \<Rightarrow> (Inl e, s') | (Inr x, s') \<Rightarrow> f x s')"

text \<open>\<open>try: body except C as e: handler\<close>, where \<open>catches\<close> tells the instances of C.\<close>

definition try_except ::
  "('s, 'a) io \<Rightarrow> (exn \<Rightarrow> bool) \<Rightarrow> (exn \<Rightarrow> ('s, 'a) io) \<Rightarrow> ('s, 'a) io" where
  "try_except body catches handler =
     (\<lambda>s. case body s of
        (Inr x, s') \<Rightarrow> (Inr x, s')
      | (Inl e, s') \<Rightarrow> if catches e then handler e s' else (Inl e, s'))"

definition logger_error :: "string \<Rightarrow> (dashboard, unit) io" where
  "logger_error m = io_modify (\<lambda>s. s\<lparr>logged := logged s @ [m]\<rparr>)"

definition set_status :: "string \<Rightarrow> (dashboard, unit) io" where
  "set_status t = io_modify (\<lambda>s. s\<lparr>status_var := t, status_log := status_log s @ [t]\<rparr>)"

definition requests_get :: "world \<Rightarrow> request \<Rightarrow> (dashboard, response) io" where
  "requests_get w rq = (\<lambda>s. (http_get w rq, s\<lparr>http_log := http_log s @ [rq]\<rparr>))"

subsection \<open>WeatherAPI.get_weather\<close>

definition current_request :: "dashboard \<Rightarrow> string \<Rightarrow> request" where
  "current_request s city =
     \<lparr>url = [Lit (base_url s @ ''/current.json'')],
      params = [(''key'', PStr (api_key s)), (''q'', PStr city), (''aqi'', PStr ''yes'')]\<rparr>"

definition forecast_request :: "dashboard \<Rightarrow> string \<Rightarrow> request" where
  "forecast_request s city =
     \<lparr>url = [Lit (base_url s @ ''/forecast.json'')],
      params = [(''key'', PStr (api_key s)), (''q'', PStr city), (''aqi'', PStr ''yes''),
                (''days'', PInt 1)]\<rparr>"

definition get_weather_try :: "world \<Rightarrow> string \<Rightarrow> (dashboard, pyval) io" where
  "get_weather_try w city =
     (\<lambda>s0.
       (io_bind (requests_get w (current_request s0 city)) (\<lambda>current_response.
        io_bind (requests_get w (forecast_request s0 city)) (\<lambda>forecast_response.
        io_bind (io_lift (raise_for_status current_response)) (\<lambda>_.
        io_bind (io_lift (raise_for_status forecast_response)) (\<lambda>_.
        io_bind (io_lift (json current_response)) (\<lambda>c.
        io_bind (io_lift (json forecast_response)) (\<lambda>f.
        io_return (PDict [(''current'', c), (''forecast'', f)])))))))) s0)"

definition get_weather :: "world \<Rightarrow> string \<Rightarrow> (dashboard, pyval) io" where
  "get_weather w city =
     (\<lambda>s. case try_except (get_weather_try w city) is_RequestException
                (\<lambda>e. io_bind (logger_error (''API request failed: '' @ exn_str e))
                        (\<lambda>_. io_return PNone))
                (s\<lparr>fetch_log := fetch_log s @ [FetchBegin city]\<rparr>) of
        (r, s') \<Rightarrow> (r, s'\<lparr>fetch_log := fetch_log s' @ [FetchEnd city]\<rparr>))"

subsection \<open>DataManager.save_weather_data\<close>

definition history_columns :: "string list" where
  "history_columns =
     [''timestamp'', ''city'', ''temperature'', ''condition'', ''humidity'', ''wind_speed'',
      ''pressure'']"

text \<open>
  \<open>DataFrame.to_csv(path, mode='a', header=h, index=False)\<close> of a one-row frame: the
  column names first when \<open>h\<close> holds, then the row, at the end of the file, which is
  created when absent.
\<close>

definition to_csv :: "bool \<Rightarrow> string list \<Rightarrow> pyval list \<Rightarrow> csv_line list option \<Rightarrow> csv_line list" where
  "to_csv h cols cells file =
     (case file of None \<Rightarrow> [] | Some ls \<Rightarrow> ls) @ (if h then [Header cols] else []) @ [Row cells]"

definition history_row :: "world \<Rightarrow> string \<Rightarrow> WeatherData \<Rightarrow> pyval list" where
  "history_row w city weather =
     [PDatetime (now w), PStr city, temperature weather, condition weather, humidity weather,
      wind_speed weather, pressure weather]"

definition save_weather_data :: "world \<Rightarrow> string \<Rightarrow> WeatherData \<Rightarrow> (dashboard, unit) io" where
  "save_weather_data w city weather =
     try_except
       (\<lambda>s. case to_csv_raises w of
          Some e \<Rightarrow> (Inl e, s)
        | None \<Rightarrow>
            (Inr (), s\<lparr>history_file :=
               Some (to_csv (history_file s = None) history_columns
                       (history_row w city weather) (history_file s))\<rparr>))
       is_Exception
       (\<lambda>e. logger_error (''Failed to save weather data: '' @ exn_str e))"

subsection \<open>WeatherDashboard\<close>

text \<open>The construction of the record in \<open>process_weather_data\<close>, in evaluation order.\<close>

definition make_weather :: "pyval \<Rightarrow> exn + WeatherData" where
  "make_weather data =
     ebind (getitem data (KStr ''current'')) (\<lambda>d.
     ebind (getitem d (KStr ''current'')) (\<lambda>current.
     ebind (getitem current (KStr ''temp_c'')) (\<lambda>t.
     ebind (getitem current (KStr ''condition'')) (\<lambda>c1.
     ebind (getitem c1 (KStr ''text'')) (\<lambda>txt.
     ebind (getitem current (KStr ''humidity'')) (\<lambda>h.
     ebind (getitem current (KStr ''wind_kph'')) (\<lambda>wk.
     ebind (getitem current (KStr ''pressure_mb'')) (\<lambda>p.
     ebind (getitem current (KStr ''feelslike_c'')) (\<lambda>fl.
     ebind (getitem current (KStr ''condition'')) (\<lambda>c2.
     ebind (getitem c2 (KStr ''icon'')) (\<lambda>ic.
     Inr \<lparr>temperature = t, condition = txt, humidity = h, wind_speed = wk, pressure = p,
          feels_like = fl, icon_url = [Lit ''http:'', Val ic]\<rparr>)))))))))))"

definition degrees_C :: string where
  "degrees_C = [CHR 0xB0, CHR ''C'']"

definition icon_request :: "fstring \<Rightarrow> request" where
  "icon_request u = \<lparr>url = u, params = []\<rparr>"

definition update_ui :: "world \<Rightarrow> string \<Rightarrow> WeatherData \<Rightarrow> (dashboard, unit) io" where
  "update_ui w city weather =
     io_bind (io_modify (\<lambda>s. s\<lparr>temp_var := [Val (temperature weather), Lit degrees_C]\<rparr>)) (\<lambda>_.
     io_bind (io_modify (\<lambda>s. s\<lparr>condition_var := [Val (condition weather)]\<rparr>)) (\<lambda>_.
     io_bind (io_modify (\<lambda>s. s\<lparr>humidity_var := [Val (humidity weather), Lit ''%'']\<rparr>)) (\<lambda>_.
     io_bind (io_modify (\<lambda>s. s\<lparr>wind_var := [Val (wind_speed weather), Lit '' km/h'']\<rparr>)) (\<lambda>_.
     io_bind (io_modify (\<lambda>s. s\<lparr>pressure_var := [Val (pressure weather), Lit '' mb'']\<rparr>)) (\<lambda>_.
     try_except
       (io_bind (requests_get w (icon_request (icon_url weather))) (\<lambda>response.
        io_bind (io_lift (picture response)) (\<lambda>photo.
        io_modify (\<lambda>s. s\<lparr>icon_label := Some photo\<rparr>))))
       is_Exception
       (\<lambda>e. logger_error (''Failed to update weather icon: '' @ exn_str e)))))))"

text \<open>\<open>datetime.fromisoformat\<close>, the validity of the text being the world's.\<close>

definition fromisoformat :: "world \<Rightarrow> pyval \<Rightarrow> exn + pyval" where
  "fromisoformat w v =
     (case v of
        PStr t \<Rightarrow> if iso_ok w t then Inr (PDatetime t)
                  else Inl (Exn ValueError (''Invalid isoformat string: '' @ quoted t))
      | _ \<Rightarrow> Inl (Exn TypeError ''fromisoformat: argument must be str''))"

definition update_forecast_graph :: "world \<Rightarrow> pyval \<Rightarrow> (dashboard, unit) io" where
  "update_forecast_graph w forecast_data =
     try_except
       (io_bind (io_lift
          (ebind (getitem forecast_data (KStr ''forecast'')) (\<lambda>a.
           ebind (getitem a (KStr ''forecastday'')) (\<lambda>b.
           ebind (getitem b (KInt 0)) (\<lambda>c.
           getitem c (KStr ''hour'')))))) (\<lambda>hours.
        io_bind (io_lift
          (ebind (py_iter hours)
             (emap (\<lambda>hour. ebind (getitem hour (KStr ''time'')) (fromisoformat w))))) (\<lambda>times.
        io_bind (io_lift
          (ebind (py_iter hours) (emap (\<lambda>hour. getitem hour (KStr ''temp_c''))))) (\<lambda>temps.
        io_bind (io_modify (\<lambda>s. s\<lparr>ax_plot := ([], [])\<rparr>)) (\<lambda>_.
        io_bind (io_modify (\<lambda>s. s\<lparr>ax_plot := (times, temps)\<rparr>)) (\<lambda>_.
        io_lift (case draw_raises w of Some e \<Rightarrow> Inl e | None \<Rightarrow> Inr ())))))))
       is_Exception
       (\<lambda>e. logger_error (''Failed to update forecast graph: '' @ exn_str e))"

definition process_weather_data :: "world \<Rightarrow> string \<Rightarrow> pyval \<Rightarrow> (dashboard, unit) io" where
  "process_weather_data w city data =
     try_except
       (io_bind (io_lift (make_weather data)) (\<lambda>weather.
        io_bind (update_ui w city weather) (\<lambda>_.
        io_bind (io_lift (getitem data (KStr ''forecast''))) (\<lambda>fc.
        io_bind (update_forecast_graph w fc) (\<lambda>_.
        io_bind (save_weather_data w city weather) (\<lambda>_.
        set_status (''Weather updated for '' @ city)))))))
       is_Exception
       (\<lambda>e. io_bind (logger_error (''Failed to process weather data: '' @ exn_str e)) (\<lambda>_.
             set_status ''Failed to process weather data''))"

text \<open>
  \<open>Queue.task_done\<close>: one unfinished task less, a ValueError when there is none.
\<close>

definition task_done :: "(dashboard, unit) io" where
  "task_done =
     (\<lambda>s. if unfinished_tasks s = 0
           then (Inl (Exn ValueError ''task_done() called too many times''), s)
           else (Inr (), s\<lparr>unfinished_tasks := unfinished_tasks s - 1\<rparr>))"

text \<open>
  One pass of the loop of \<open>update_worker\<close>, from the moment \<open>update_queue.get()\<close> has
  returned \<open>city\<close>: first the statements of the \<open>try\<close>, then the whole \<open>try/except\<close>.
\<close>

definition update_worker_try :: "world \<Rightarrow> string \<Rightarrow> (dashboard, unit) io" where
  "update_worker_try w city =
     io_bind (set_status (''Fetching weather data for '' @ city @ ''...'')) (\<lambda>_.
     io_bind (get_weather w city) (\<lambda>weather_data.
     io_bind (if truthy weather_data then process_weather_data w city weather_data
              else set_status ''Failed to fetch weather data'') (\<lambda>_.
     task_done)))"

definition update_worker_iter :: "world \<Rightarrow> string \<Rightarrow> (dashboard, unit) io" where
  "update_worker_iter w city =
     try_except (update_worker_try w city) is_Exception
       (\<lambda>e. io_bind (logger_error (''Update worker error: '' @ exn_str e)) (\<lambda>_.
             set_status ''An error occurred''))"

text \<open>\<open>str.isspace\<close> on the characters below 256, and \<open>str.strip()\<close>.\<close>

definition isspace :: "char \<Rightarrow> bool" where
  "isspace c = (of_char c \<in> {9, 10, 11, 12, 13, 28, 29, 30, 31, 32, 133, 160 :: nat})"

definition strip :: "string \<Rightarrow> string" where
  "strip s = rev (dropWhile isspace (rev (dropWhile isspace s)))"

text \<open>\<open>Queue.put\<close> on the unbounded queue.\<close>

definition queue_put :: "string \<Rightarrow> dashboard \<Rightarrow> dashboard" where
  "queue_put x s =
     s\<lparr>update_queue := update_queue s @ [x], unfinished_tasks := unfinished_tasks s + 1\<rparr>"

definition update_weather :: "dashboard \<Rightarrow> dashboard" where
  "update_weather s =
     (let city = strip (city_var s)
      in if city \<noteq> [] then queue_put city s
         else s\<lparr>warnings := warnings s @ [''Please enter a city name'']\<rparr>)"

definition load_initial_data :: "string \<Rightarrow> dashboard \<Rightarrow> dashboard" where
  "load_initial_data default_city s = update_weather (s\<lparr>city_var := default_city\<rparr>)"

text \<open>
  The application right after \<open>__init__\<close> has made the queue and started the one worker
  thread, given the configuration and the history file found on disk.
\<close>

definition new_dashboard :: "string \<Rightarrow> string \<Rightarrow> csv_line list option \<Rightarrow> dashboard" where
  "new_dashboard b k hist =
     \<lparr>base_url = b, api_key = k, city_var = [], update_queue = [], unfinished_tasks = 0,
      status_var = [], temp_var = [], condition_var = [], humidity_var = [], wind_var = [],
      pressure_var = [], icon_label = None, ax_plot = ([], []), warnings = [],
      history_file = hist, logged = [], http_log = [], fetch_log = [], status_log = []\<rparr>"

subsection \<open>The UI thread and the worker thread\<close>

text \<open>
  The two threads share only the queue, so a run of the program is a sequence of two kinds
  of atomic steps: the user searches for the text in the entry (the UI thread runs
  \<open>update_weather\<close>), or the worker makes one pass of its loop with what the world answers.
  The worker is \<open>None\<close> while it runs and \<open>Some e\<close> once \<open>e\<close> has escaped its loop;
  with an empty queue it stays blocked in \<open>get\<close>.
\<close>

datatype action = Search string | Work world

fun step :: "action \<Rightarrow> exn option \<times> dashboard \<Rightarrow> exn option \<times> dashboard" where
  "step (Search text) (t, s) = (t, update_weather (s\<lparr>city_var := text\<rparr>))"
| "step (Work w) (Some e, s) = (Some e, s)"
| "step (Work w) (None, s) =
     (case update_queue s of
        [] \<Rightarrow> (None, s)
      | city # rest \<Rightarrow>
          (case update_worker_iter w city (s\<lparr>update_queue := rest\<rparr>) of
             (Inl e, s') \<Rightarrow> (Some e, s')
           | (Inr u, s') \<Rightarrow> (None, s')))"

fun run :: "action list \<Rightarrow> exn option \<times> dashboard \<Rightarrow> exn option \<times> dashboard" where
  "run [] st = st"
| "run (a # as) st = run as (step a st)"

section \<open>pro.py\<close>

text \<open>The labels and the entry of the script's window, its CSV file, the requests it issued.\<close>

record pro_app =
  city_entry :: string
  temp_label :: fstring
  condition_label :: fstring
  humidity_label :: fstring
  pro_icon_label :: "string option"
  weather_history :: "csv_line list option"
  pro_http_log :: "request list"

definition pro_requests_get :: "world \<Rightarrow> request \<Rightarrow> (pro_app, response) io" where
  "pro_requests_get w rq = (\<lambda>s. (http_get w rq, s\<lparr>pro_http_log := pro_http_log s @ [rq]\<rparr>))"

definition pro_api_key :: string where
  "pro_api_key = ''4a3390d98df844149de163210240411''"

definition fetch_weather :: "world \<Rightarrow> string \<Rightarrow> (pro_app, pyval \<times> pyval \<times> pyval \<times> pyval) io" where
  "fetch_weather w city =
     io_bind (pro_requests_get w
                \<lparr>url = [Lit (''http://api.weatherapi.com/v1/current.json?key='' @ pro_api_key
                             @ ''&q='' @ city)],
                 params = []\<rparr>) (\<lambda>response.
     if status_code response = 200 then
       io_lift
         (ebind (json response) (\<lambda>data.
          ebind (ebind (getitem data (KStr ''current'')) (\<lambda>c. getitem c (KStr ''temp_c'')))
            (\<lambda>temp.
          ebind (ebind (getitem data (KStr ''current'')) (\<lambda>c.
                 ebind (getitem c (KStr ''condition'')) (\<lambda>d. getitem d (KStr ''text''))))
            (\<lambda>cond.
          ebind (ebind (getitem data (KStr ''current'')) (\<lambda>c. getitem c (KStr ''humidity'')))
            (\<lambda>hum.
          ebind (ebind (getitem data (KStr ''current'')) (\<lambda>c.
                 ebind (getitem c (KStr ''condition'')) (\<lambda>d. getitem d (KStr ''icon''))))
            (\<lambda>icon.
          Inr (temp, cond, hum, icon)))))))
     else io_return (PNone, PNone, PNone, PNone))"

definition save_to_csv :: "world \<Rightarrow> string \<Rightarrow> pyval \<Rightarrow> pyval \<Rightarrow> pyval \<Rightarrow> (pro_app, unit) io" where
  "save_to_csv w city temp cond hum =
     (\<lambda>s. case to_csv_raises w of
        Some e \<Rightarrow> (Inl e, s)
      | None \<Rightarrow>
          (Inr (), s\<lparr>weather_history :=
             Some (to_csv False [''City'', ''Temperature'', ''Condition'', ''Humidity'']
                     [PStr city, temp, cond, hum] (weather_history s))\<rparr>))"

definition pro_update_weather :: "world \<Rightarrow> (pro_app, unit) io" where
  "pro_update_weather w =
     (\<lambda>s0.
       (io_bind (fetch_weather w (city_entry s0)) (\<lambda>(temp, cond, hum, icon).
        if temp \<noteq> PNone then
          io_bind (io_modify (\<lambda>s. s\<lparr>temp_label := [Val temp, Lit degrees_C]\<rparr>)) (\<lambda>_.
          io_bind (io_modify (\<lambda>s. s\<lparr>condition_label := [Val cond]\<rparr>)) (\<lambda>_.
          io_bind (io_modify (\<lambda>s. s\<lparr>humidity_label := [Val hum, Lit ''%'']\<rparr>)) (\<lambda>_.
          io_bind (save_to_csv w (city_entry s0) temp cond hum) (\<lambda>_.
          io_bind (pro_requests_get w (icon_request [Lit ''http:'', Val icon])) (\<lambda>icon_response.
          io_bind (io_lift (picture icon_response)) (\<lambda>icon_photo.
          io_modify (\<lambda>s. s\<lparr>pro_icon_label := Some icon_photo\<rparr>)))))))
        else
          io_bind (io_modify (\<lambda>s. s\<lparr>temp_label := [Lit ''Error fetching data'']\<rparr>)) (\<lambda>_.
          io_bind (io_modify (\<lambda>s. s\<lparr>condition_label := []\<rparr>)) (\<lambda>_.
          io_bind (io_modify (\<lambda>s. s\<lparr>humidity_label := []\<rparr>)) (\<lambda>_.
          io_modify (\<lambda>s. s\<lparr>pro_icon_label := None\<rparr>)))))) s0)"

section \<open>Notions used to state the properties\<close>

subsection \<open>What the procedures compute, written without the state\<close>

text \<open>
  The value of the \<open>try\<close> block of \<open>get_weather\<close> and the requests it issues, given
  the two requests it builds.
\<close>

definition get_weather_value :: "world \<Rightarrow> request \<Rightarrow> request \<Rightarrow> exn + pyval" where
  "get_weather_value w cur fc =
     ebind (http_get w cur) (\<lambda>rc.
     ebind (http_get w fc) (\<lambda>rf.
     ebind (raise_for_status rc) (\<lambda>_.
     ebind (raise_for_status rf) (\<lambda>_.
     ebind (json rc) (\<lambda>c.
     ebind (json rf) (\<lambda>f.
     Inr (PDict [(''current'', c), (''forecast'', f)])))))))"

definition get_weather_requests :: "world \<Rightarrow> request \<Rightarrow> request \<Rightarrow> request list" where
  "get_weather_requests w cur fc = (case http_get w cur of Inl e \<Rightarrow> [cur] | Inr r \<Rightarrow> [cur, fc])"

text \<open>What \<open>update_ui\<close> gets when it loads the icon.\<close>

definition icon_result :: "world \<Rightarrow> fstring \<Rightarrow> exn + string" where
  "icon_result w u = ebind (http_get w (icon_request u)) picture"

text \<open>The handlers of \<open>process_weather_data\<close> and \<open>update_worker\<close>, and their last lines.\<close>

definition process_failed :: "exn \<Rightarrow> dashboard \<Rightarrow> dashboard" where
  "process_failed e s =
     s\<lparr>logged := logged s @ [''Failed to process weather data: '' @ exn_str e],
       status_var := ''Failed to process weather data'',
       status_log := status_log s @ [''Failed to process weather data'']\<rparr>"

definition process_done :: "string \<Rightarrow> dashboard \<Rightarrow> dashboard" where
  "process_done city s =
     s\<lparr>status_var := ''Weather updated for '' @ city,
       status_log := status_log s @ [''Weather updated for '' @ city]\<rparr>"

definition worker_failed :: "exn \<Rightarrow> dashboard \<Rightarrow> dashboard" where
  "worker_failed e s =
     s\<lparr>logged := logged s @ [''Update worker error: '' @ exn_str e],
       status_var := ''An error occurred'',
       status_log := status_log s @ [''An error occurred'']\<rparr>"

definition finish_task :: "dashboard \<Rightarrow> dashboard" where
  "finish_task s =
     (if unfinished_tasks s = 0
      then worker_failed (Exn ValueError ''task_done() called too many times'') s
      else s\<lparr>unfinished_tasks := unfinished_tasks s - 1\<rparr>)"

text \<open>The status text \<open>process_weather_data\<close> ends with.\<close>

definition process_outcome :: "string \<Rightarrow> pyval \<Rightarrow> string" where
  "process_outcome city data =
     (case ebind (make_weather data) (\<lambda>_. getitem data (KStr ''forecast'')) of
        Inl e \<Rightarrow> ''Failed to process weather data''
      | Inr fc \<Rightarrow> ''Weather updated for '' @ city)"

text \<open>
  The exception of \<open>v[k]\<close> for a string \<open>k\<close> that \<open>v\<close> does not hold.
\<close>

definition key_error :: "pyval \<Rightarrow> string \<Rightarrow> exn" where
  "key_error v k =
     (case v of
        PDict kvs \<Rightarrow> Exn KeyError (quoted k)
      | PList xs \<Rightarrow> Exn TypeError ''list indices must be integers or slices, not str''
      | PStr s \<Rightarrow> Exn TypeError ''string indices must be integers''
      | _ \<Rightarrow> Exn TypeError ''object is not subscriptable'')"

text \<open>The request \<open>fetch_weather\<close> of pro.py builds for a city.\<close>

definition pro_request :: "string \<Rightarrow> request" where
  "pro_request city =
     \<lparr>url = [Lit (''http://api.weatherapi.com/v1/current.json?key='' @ pro_api_key
                  @ ''&q='' @ city)],
      params = []\<rparr>"

text \<open>
  The status text one pass of the worker ends with when \<open>task_done\<close> does not raise.
\<close>

definition cycle_outcome :: "world \<Rightarrow> string \<Rightarrow> dashboard \<Rightarrow> string" where
  "cycle_outcome w city s =
     (case get_weather_value w (current_request s city) (forecast_request s city) of
        Inl e \<Rightarrow> if is_RequestException e then ''Failed to fetch weather data''
                  else ''An error occurred''
      | Inr v \<Rightarrow> if truthy v then process_outcome city v
                  else ''Failed to fetch weather data'')"

definition outcomes :: "string \<Rightarrow> string set" where
  "outcomes city =
     {''Weather updated for '' @ city, ''Failed to process weather data'',
      ''Failed to fetch weather data'', ''An error occurred''}"

definition fetching :: "string \<Rightarrow> string" where
  "fetching city = ''Fetching weather data for '' @ city @ ''...''"

subsection \<open>Schedules and traces\<close>

text \<open>The locations a schedule enqueues, in order.\<close>

fun puts :: "action list \<Rightarrow> string list" where
  "puts [] = []"
| "puts (Search text # as) = (if strip text = [] then [] else [strip text]) @ puts as"
| "puts (Work w # as) = puts as"

text \<open>The trace of fetching the given cities one after the other.\<close>

fun bracket :: "string list \<Rightarrow> fetch_event list" where
  "bracket [] = []"
| "bracket (c # cs) = FetchBegin c # FetchEnd c # bracket cs"

text \<open>The number of fetches begun and not yet ended after a sequence of events.\<close>

fun in_flight :: "fetch_event list \<Rightarrow> int" where
  "in_flight [] = 0"
| "in_flight (FetchBegin c # es) = in_flight es + 1"
| "in_flight (FetchEnd c # es) = in_flight es - 1"

text \<open>A sequence of appends to the history, each with its world, city and record.\<close>

fun save_all :: "(world \<times> string \<times> WeatherData) list \<Rightarrow> dashboard \<Rightarrow> dashboard" where
  "save_all [] s = s"
| "save_all (r # rs) s =
     save_all rs (snd (save_weather_data (fst r) (fst (snd r)) (snd (snd r)) s))"

subsection \<open>The spec's notions\<close>

text \<open>
  A call to the provider fails on a network error, on a non-success status or on a
  malformed body; otherwise it yields the parsed body.
\<close>

definition call_result :: "world \<Rightarrow> request \<Rightarrow> pyval option" where
  "call_result w rq =
     (case http_get w rq of
        Inl e \<Rightarrow> None
      | Inr r \<Rightarrow>
          if 400 \<le> status_code r \<and> status_code r < 600 then None
          else (case json r of Inl e \<Rightarrow> None | Inr v \<Rightarrow> Some v))"

text \<open>
  The field \<open>k\<close> of a JSON object; a value that is not an object has no fields.
\<close>

definition field :: "pyval \<Rightarrow> string \<Rightarrow> pyval option" where
  "field v k = (case v of PDict kvs \<Rightarrow> map_of kvs k | _ \<Rightarrow> None)"

text \<open>
  The record of the documented fields of a payload, where all of them are present.
\<close>

definition spec_normalize :: "pyval \<Rightarrow> WeatherData option" where
  "spec_normalize data =
     Option.bind (field data ''current'') (\<lambda>d.
     Option.bind (field d ''current'') (\<lambda>current.
     Option.bind (field current ''temp_c'') (\<lambda>t.
     Option.bind (field current ''feelslike_c'') (\<lambda>fl.
     Option.bind (field current ''condition'') (\<lambda>c.
     Option.bind (field c ''text'') (\<lambda>txt.
     Option.bind (field c ''icon'') (\<lambda>ic.
     Option.bind (field current ''humidity'') (\<lambda>h.
     Option.bind (field current ''wind_kph'') (\<lambda>wk.
     Option.bind (field current ''pressure_mb'') (\<lambda>p.
     Some \<lparr>temperature = t, condition = txt, humidity = h, wind_speed = wk, pressure = p,
           feels_like = fl, icon_url = [Lit ''http:'', Val ic]\<rparr>))))))))))"

text \<open>
  The shapes the data model gives the fields: numbers for the temperatures, the wind and
  the pressure, an integer for the humidity, a string for the condition.
\<close>

fun is_number :: "pyval \<Rightarrow> bool" where
  "is_number (PInt i) = True"
| "is_number (PFloat r) = True"
| "is_number v = False"

fun is_integer :: "pyval \<Rightarrow> bool" where
  "is_integer (PInt i) = True"
| "is_integer v = False"

fun is_string :: "pyval \<Rightarrow> bool" where
  "is_string (PStr s) = True"
| "is_string v = False"

definition well_shaped :: "pyval \<Rightarrow> bool" where
  "well_shaped data =
     (case spec_normalize data of
        None \<Rightarrow> False
      | Some r \<Rightarrow>
          is_number (temperature r) \<and> is_number (feels_like r) \<and> is_string (condition r) \<and>
          is_integer (humidity r) \<and> is_number (wind_speed r) \<and> is_number (pressure r))"

subsection \<open>Concrete inputs\<close>

text \<open>The two bodies the provider answers for London.\<close>

definition london_current :: pyval where
  "london_current =
     PDict [(''location'', PDict [(''name'', PStr ''London'')]),
            (''current'',
             PDict [(''temp_c'', PFloat ''15.0''),
                    (''condition'',
                     PDict [(''text'', PStr ''Cloudy''),
                            (''icon'', PStr ''//cdn.weatherapi.com/weather/64x64/day/119.png'')]),
                    (''humidity'', PInt 80),
                    (''wind_kph'', PFloat ''10.0''),
                    (''pressure_mb'', PFloat ''1012.0''),
                    (''feelslike_c'', PFloat ''14.2'')])]"

definition london_forecast :: pyval where
  "london_forecast =
     PDict [(''forecast'',
             PDict [(''forecastday'',
                     PList [PDict [(''hour'',
                                    PList [PDict [(''time'', PStr ''2024-11-04 00:00''),
                                                  (''temp_c'', PFloat ''12.1'')]])]])])]"

text \<open>
  A world where everything works: the requests are told apart by their parameters (three
  for the current conditions, four for the forecast, none for the icon).
\<close>

definition good_world :: world where
  "good_world =
     \<lparr>http_get = (\<lambda>rq. case params rq of
          [] \<Rightarrow> Inr \<lparr>status_code = 200, json = Inl (Exn ValueError ''Expecting value''),
                      picture = Inr ''PNG''\<rparr>
        | [a, b, c] \<Rightarrow> Inr \<lparr>status_code = 200, json = Inr london_current,
                             picture = Inl (Exn OSError ''cannot identify image file'')\<rparr>
        | _ \<Rightarrow> Inr \<lparr>status_code = 200, json = Inr london_forecast,
                     picture = Inl (Exn OSError ''cannot identify image file'')\<rparr>),
      now = ''2024-11-04 12:00:00'',
      iso_ok = (\<lambda>t. True),
      draw_raises = None,
      to_csv_raises = None\<rparr>"

text \<open>A world where the provider cannot be reached.\<close>

definition down_world :: world where
  "down_world = good_world\<lparr>http_get := (\<lambda>rq. Inl (Exn ConnectionError ''connection refused''))\<rparr>"


text \<open>The application just started, with no history file on disk.\<close>

definition fresh :: dashboard where
  "fresh = new_dashboard ''http://api.weatherapi.com/v1'' ''KEY'' None"

text \<open>
  A payload after a schema drift: the temperature is text, the humidity is null.
\<close>

definition drifted_payload :: pyval where
  "drifted_payload =
     PDict [(''current'',
             PDict [(''current'',
                     PDict [(''temp_c'', PStr ''warm''),
                            (''condition'',
                             PDict [(''text'', PStr ''Cloudy''), (''icon'', PStr ''//cdn/119.png'')]),
                            (''humidity'', PNone),
                            (''wind_kph'', PFloat ''10.0''),
                            (''pressure_mb'', PFloat ''1012.0''),
                            (''feelslike_c'', PFloat ''14.2'')])]),
            (''forecast'', london_forecast)]"

text \<open>A world where everything works but the write to the history file.\<close>

definition csv_fail_world :: world where
  "csv_fail_world = good_world\<lparr>to_csv_raises := Some (Exn OSError ''No space left on device'')\<rparr>"

text \<open>The record of London's current conditions above.\<close>

definition london_weather :: WeatherData where
  "london_weather =
     \<lparr>temperature = PFloat ''15.0'', condition = PStr ''Cloudy'', humidity = PInt 80,
      wind_speed = PFloat ''10.0'', pressure = PFloat ''1012.0'', feels_like = PFloat ''14.2'',
      icon_url = [Lit ''http:'', Val (PStr ''//cdn.weatherapi.com/weather/64x64/day/119.png'')]\<rparr>"

text \<open>A world where the provider answers 404 to every request.\<close>

definition missing_world :: world where
  "missing_world =
     good_world\<lparr>http_get := (\<lambda>rq. Inr \<lparr>status_code = 404,
                                        json = Inr (PDict [(''error'', PStr ''No matching location found.'')]),
                                        picture = Inl (Exn OSError ''cannot identify image file'')\<rparr>)\<rparr>"

text \<open>The window of pro.py showing London's weather, with no history file yet.\<close>

definition pro_shown :: pro_app where
  "pro_shown =
     \<lparr>city_entry = ''Atlantis'',
      temp_label = [Val (PFloat ''15.0''), Lit degrees_C],
      condition_label = [Val (PStr ''Cloudy'')],
      humidity_label = [Val (PInt 80), Lit ''%''],
      pro_icon_label = Some ''PNG'',
      weather_history = None,
      pro_http_log = []\<rparr>"

section \<open>Further notions\<close>

subsection \<open>What \<open>requests\<close> raises\<close>


subsection \<open>The worker when Tk refuses its writes\<close>

text \<open>
  Tk and the worker thread. The writes to \<open>status_var\<close>, to the five display variables
  and to \<open>icon_label\<close> are calls into Tk from the worker thread. Tk carries them out
  while the main thread is in its main loop; otherwise the call raises (a RuntimeError,
  "main thread is not in main loop"), as it can for the request \<open>load_initial_data\<close>
  enqueues inside \<open>__init__\<close>, before \<open>mainloop()\<close> is entered. The procedures above
  are the case where Tk carries the writes out. The ones below take what Tk does during
  the pass as \<open>tk\<close>: \<open>None\<close> when it carries the writes out, \<open>Some e\<close> when each
  write raises \<open>e\<close>.
\<close>

definition tk_write :: "exn option \<Rightarrow> (dashboard \<Rightarrow> dashboard) \<Rightarrow> (dashboard, unit) io" where
  "tk_write tk f = (case tk of None \<Rightarrow> io_modify f | Some e \<Rightarrow> io_lift (Inl e))"

definition set_status_tk :: "exn option \<Rightarrow> string \<Rightarrow> (dashboard, unit) io" where
  "set_status_tk tk t =
     tk_write tk (\<lambda>s. s\<lparr>status_var := t, status_log := status_log s @ [t]\<rparr>)"

definition update_ui_tk :: "exn option \<Rightarrow> world \<Rightarrow> string \<Rightarrow> WeatherData \<Rightarrow> (dashboard, unit) io" where
  "update_ui_tk tk w city weather =
     io_bind (tk_write tk (\<lambda>s. s\<lparr>temp_var := [Val (temperature weather), Lit degrees_C]\<rparr>)) (\<lambda>_.
     io_bind (tk_write tk (\<lambda>s. s\<lparr>condition_var := [Val (condition weather)]\<rparr>)) (\<lambda>_.
     io_bind (tk_write tk (\<lambda>s. s\<lparr>humidity_var := [Val (humidity weather), Lit ''%'']\<rparr>)) (\<lambda>_.
     io_bind (tk_write tk (\<lambda>s. s\<lparr>wind_var := [Val (wind_speed weather), Lit '' km/h'']\<rparr>)) (\<lambda>_.
     io_bind (tk_write tk (\<lambda>s. s\<lparr>pressure_var := [Val (pressure weather), Lit '' mb'']\<rparr>)) (\<lambda>_.
     try_except
       (io_bind (requests_get w (icon_request (icon_url weather))) (\<lambda>response.
        io_bind (io_lift (picture response)) (\<lambda>photo.
        tk_write tk (\<lambda>s. s\<lparr>icon_label := Some photo\<rparr>))))
       is_Exception
       (\<lambda>e. logger_error (''Failed to update weather icon: '' @ exn_str e)))))))"

definition process_weather_data_tk :: "exn option \<Rightarrow> world \<Rightarrow> string \<Rightarrow> pyval \<Rightarrow> (dashboard, unit) io" where
  "process_weather_data_tk tk w city data =
     try_except
       (io_bind (io_lift (make_weather data)) (\<lambda>weather.
        io_bind (update_ui_tk tk w city weather) (\<lambda>_.
        io_bind (io_lift (getitem data (KStr ''forecast''))) (\<lambda>fc.
        io_bind (update_forecast_graph w fc) (\<lambda>_.
        io_bind (save_weather_data w city weather) (\<lambda>_.
        set_status_tk tk (''Weather updated for '' @ city)))))))
       is_Exception
       (\<lambda>e. io_bind (logger_error (''Failed to process weather data: '' @ exn_str e)) (\<lambda>_.
             set_status_tk tk ''Failed to process weather data''))"

definition update_worker_try_tk :: "exn option \<Rightarrow> world \<Rightarrow> string \<Rightarrow> (dashboard, unit) io" where
  "update_worker_try_tk tk w city =
     io_bind (set_status_tk tk (''Fetching weather data for '' @ city @ ''...'')) (\<lambda>_.
     io_bind (get_weather w city) (\<lambda>weather_data.
     io_bind (if truthy weather_data then process_weather_data_tk tk w city weather_data
              else set_status_tk tk ''Failed to fetch weather data'') (\<lambda>_.
     task_done)))"

definition update_worker_iter_tk :: "exn option \<Rightarrow> world \<Rightarrow> string \<Rightarrow> (dashboard, unit) io" where
  "update_worker_iter_tk tk w city =
     try_except (update_worker_try_tk tk w city) is_Exception
       (\<lambda>e. io_bind (logger_error (''Update worker error: '' @ exn_str e)) (\<lambda>_.
             set_status_tk tk ''An error occurred''))"

text \<open>
  \<open>update_worker\<close>: the loop \<open>while True\<close>, run for the passes given (what Tk and the
  world do in each). It gives \<open>None\<close> when the thread is still in the loop, blocked in
  \<open>get\<close> on an empty queue or out of passes, and \<open>Some e\<close> when the exception \<open>e\<close> has
  left the loop and ended the thread.
\<close>

fun update_worker :: "(exn option \<times> world) list \<Rightarrow> dashboard \<Rightarrow> exn option \<times> dashboard" where
  "update_worker [] s = (None, s)"
| "update_worker (p # ps) s =
     (case update_queue s of
        [] \<Rightarrow> (None, s)
      | city # rest \<Rightarrow>
          (case update_worker_iter_tk (fst p) (snd p) city (s\<lparr>update_queue := rest\<rparr>) of
             (Inl e, s') \<Rightarrow> (Some e, s')
           | (Inr u, s') \<Rightarrow> update_worker ps s'))"


subsection \<open>The UI thread and the worker threads, occurrence by occurrence\<close>

text \<open>
  The threads in detail. While the worker is inside \<open>get_weather\<close> the UI thread goes on
  running, so a pass of the worker is two occurrences: the thread takes a city from the
  queue, announces the fetch and enters \<open>get_weather\<close>; later \<open>get_weather\<close> comes back
  and the thread finishes the pass. The halves of the pass, each with the part of the
  \<open>try\<close> statement it runs:
\<close>

definition worker_handler :: "exn \<Rightarrow> (dashboard, unit) io" where
  "worker_handler e =
     io_bind (logger_error (''Update worker error: '' @ exn_str e)) (\<lambda>_.
     set_status ''An error occurred'')"

text \<open>
  Up to the call of \<open>get_weather\<close>: \<open>True\<close> when the call is made, \<open>False\<close> when the
  handler has ended the pass before it.
\<close>

definition enter_fetch :: "string \<Rightarrow> (dashboard, bool) io" where
  "enter_fetch city =
     try_except
       (io_bind (set_status (''Fetching weather data for '' @ city @ ''...'')) (\<lambda>_.
        io_return True))
       is_Exception
       (\<lambda>e. io_bind (worker_handler e) (\<lambda>_. io_return False))"

text \<open>From the call of \<open>get_weather\<close> to the end of the pass.\<close>

definition leave_fetch :: "world \<Rightarrow> string \<Rightarrow> (dashboard, unit) io" where
  "leave_fetch w city =
     try_except
       (io_bind (get_weather w city) (\<lambda>weather_data.
        io_bind (if truthy weather_data then process_weather_data w city weather_data
                 else set_status ''Failed to fetch weather data'') (\<lambda>_.
        task_done)))
       is_Exception
       worker_handler"

text \<open>
  A worker thread is waiting in \<open>get\<close>, inside \<open>get_weather\<close> for a city, or ended by
  an exception.
\<close>

datatype thread = Waiting | InFetch string | Dead exn

fun is_InFetch :: "thread \<Rightarrow> bool" where
  "is_InFetch (InFetch c) = True"
| "is_InFetch t = False"

text \<open>
  The running program: its worker threads, the calls of \<open>get_weather\<close> begun and ended
  so far, in the order they happened, and the application object.
\<close>

record process =
  threads :: "thread list"
  trace :: "fetch_event list"
  app :: dashboard

text \<open>
  What can occur: the user searches for a text; the worker thread number \<open>i\<close>, waiting,
  takes the head of the queue and enters \<open>get_weather\<close>; thread \<open>i\<close>, inside
  \<open>get_weather\<close>, gets the world's answer and finishes its pass. An occurrence that is
  not possible (no such thread, thread not in that state, queue empty) changes nothing:
  the thread stays where it is.
\<close>

datatype occurrence = User string | Dequeue nat | Return nat world

fun occur :: "occurrence \<Rightarrow> process \<Rightarrow> process" where
  "occur (User query) p = p\<lparr>app := update_weather ((app p)\<lparr>city_var := query\<rparr>)\<rparr>"
| "occur (Dequeue i) p =
     (if i < length (threads p) \<and> threads p ! i = Waiting then
        (case update_queue (app p) of
           [] \<Rightarrow> p
         | city # rest \<Rightarrow>
             (case enter_fetch city ((app p)\<lparr>update_queue := rest\<rparr>) of
                (Inl e, s') \<Rightarrow> p\<lparr>threads := (threads p)[i := Dead e], app := s'\<rparr>
              | (Inr True, s') \<Rightarrow>
                  p\<lparr>threads := (threads p)[i := InFetch city],
                    trace := trace p @ [FetchBegin city], app := s'\<rparr>
              | (Inr False, s') \<Rightarrow> p\<lparr>app := s'\<rparr>))
      else p)"
| "occur (Return i w) p =
     (if i < length (threads p) then
        (case threads p ! i of
           InFetch city \<Rightarrow>
             (case leave_fetch w city (app p) of
                (Inl e, s') \<Rightarrow>
                  p\<lparr>threads := (threads p)[i := Dead e],
                    trace := trace p @ [FetchEnd city], app := s'\<rparr>
              | (Inr u, s') \<Rightarrow>
                  p\<lparr>threads := (threads p)[i := Waiting],
                    trace := trace p @ [FetchEnd city], app := s'\<rparr>)
         | _ \<Rightarrow> p)
      else p)"

fun occur_all :: "occurrence list \<Rightarrow> process \<Rightarrow> process" where
  "occur_all [] p = p"
| "occur_all (x # xs) p = occur_all xs (occur x p)"

text \<open>
  \<open>__init__\<close> makes the queue and calls \<open>start_update_thread\<close> once: the program starts
  with one worker thread, waiting.
\<close>

definition started :: "dashboard \<Rightarrow> process" where
  "started s = \<lparr>threads = [Waiting], trace = [], app = s\<rparr>"

text \<open>The cities whose fetch has begun, in order, and the cities the user's searches enqueue.\<close>

fun begun :: "fetch_event list \<Rightarrow> string list" where
  "begun [] = []"
| "begun (FetchBegin c # es) = c # begun es"
| "begun (FetchEnd c # es) = begun es"

fun asked :: "occurrence list \<Rightarrow> string list" where
  "asked [] = []"
| "asked (User query # xs) = (if strip query = [] then [] else [strip query]) @ asked xs"
| "asked (Dequeue i # xs) = asked xs"
| "asked (Return i w # xs) = asked xs"

text \<open>
  The number of passes a schedule of atomic steps makes on a queue of the given length:
  a pass is made by each \<open>Work\<close> that finds the queue non-empty.
\<close>

fun served :: "action list \<Rightarrow> nat \<Rightarrow> nat" where
  "served [] n = 0"
| "served (Search query # as) n = served as (if strip query = [] then n else Suc n)"
| "served (Work w # as) n = (case n of 0 \<Rightarrow> served as 0 | Suc m \<Rightarrow> Suc (served as m))"

subsection \<open>The history file as text, and its read\<close>

text \<open>
  The history file as text. \<open>to_csv\<close> writes each line with Python's \<open>csv\<close> writer in
  its default dialect: fields joined by commas, a field holding a comma, a double quote
  or a line break put between double quotes with its double quotes doubled, a row of one
  empty field written as two double quotes, and a line feed after each row.
\<close>

fun special :: "char \<Rightarrow> bool" where
  "special c = (c = CHR '','' \<or> c = CHR 0x22 \<or> c = CHR 0x0A \<or> c = CHR 0x0D)"

fun double_quotes :: "string \<Rightarrow> string" where
  "double_quotes [] = []"
| "double_quotes (c # cs) = (if c = CHR 0x22 then [CHR 0x22, CHR 0x22] else [c]) @ double_quotes cs"

definition write_field :: "string \<Rightarrow> string" where
  "write_field f = (if list_ex special f then [CHR 0x22] @ double_quotes f @ [CHR 0x22] else f)"

fun join_fields :: "string list \<Rightarrow> string" where
  "join_fields [] = []"
| "join_fields [f] = f"
| "join_fields (f # g # fs) = f @ CHR '','' # join_fields (g # fs)"

definition write_row :: "string list \<Rightarrow> string" where
  "write_row fs =
     (if fs = [[]] then [CHR 0x22, CHR 0x22] else join_fields (map write_field fs)) @ [CHR 0x0A]"

text \<open>Python's \<open>str\<close> of an integer.\<close>

fun show_nat :: "nat \<Rightarrow> string" where
  "show_nat n =
     (if n < 10 then [char_of (48 + n)] else show_nat (n div 10) @ [char_of (48 + n mod 10)])"

definition show_int :: "int \<Rightarrow> string" where
  "show_int i = (if i < 0 then CHR ''-'' # show_nat (nat (- i)) else show_nat (nat i))"

text \<open>
  The text written for a cell: a string as it is, a number as its \<open>str\<close>, nothing for
  \<open>None\<close>; \<open>str\<close> stands for Python's \<open>str\<close> of a list or a dict.
\<close>

fun cell_text :: "(pyval \<Rightarrow> string) \<Rightarrow> pyval \<Rightarrow> string" where
  "cell_text str PNone = []"
| "cell_text str (PBool b) = (if b then ''True'' else ''False'')"
| "cell_text str (PInt i) = show_int i"
| "cell_text str (PFloat r) = r"
| "cell_text str (PStr s) = s"
| "cell_text str (PDatetime t) = t"
| "cell_text str v = str v"

fun line_texts :: "(pyval \<Rightarrow> string) \<Rightarrow> csv_line \<Rightarrow> string list" where
  "line_texts str (Header cols) = cols"
| "line_texts str (Row cells) = map (cell_text str) cells"

definition csv_text :: "(pyval \<Rightarrow> string) \<Rightarrow> csv_line list \<Rightarrow> string" where
  "csv_text str ls = concat (map (\<lambda>l. write_row (line_texts str l)) ls)"

text \<open>The characters of the history file; none when there is no file.\<close>

definition history_text :: "(pyval \<Rightarrow> string) \<Rightarrow> dashboard \<Rightarrow> string" where
  "history_text str s = (case history_file s of None \<Rightarrow> [] | Some ls \<Rightarrow> csv_text str ls)"

text \<open>
  Modelled from the spec: the read of the history store, which the repository does not
  have. It reads the text as CSV in the dialect above and gives the rows, each the list of
  its fields. The reader is in a plain field, inside double quotes, or just after a double
  quote met inside double quotes; it carries the field and the row read so far.
\<close>

datatype reading = Plain | Quoted | AfterQuote

fun read_from :: "reading \<Rightarrow> string \<Rightarrow> string list \<Rightarrow> string \<Rightarrow> string list list" where
  "read_from st fld row [] =
     (if st = Plain \<and> fld = [] \<and> row = [] then [] else [row @ [fld]])"
| "read_from Plain fld row (c # cs) =
     (if c = CHR '','' then read_from Plain [] (row @ [fld]) cs
      else if c = CHR 0x0A then (row @ [fld]) # read_from Plain [] [] cs
      else if c = CHR 0x22 \<and> fld = [] then read_from Quoted [] row cs
      else read_from Plain (fld @ [c]) row cs)"
| "read_from Quoted fld row (c # cs) =
     (if c = CHR 0x22 then read_from AfterQuote fld row cs
      else read_from Quoted (fld @ [c]) row cs)"
| "read_from AfterQuote fld row (c # cs) =
     (if c = CHR 0x22 then read_from Quoted (fld @ [CHR 0x22]) row cs
      else if c = CHR '','' then read_from Plain [] (row @ [fld]) cs
      else if c = CHR 0x0A then (row @ [fld]) # read_from Plain [] [] cs
      else read_from Plain (fld @ [c]) row cs)"

definition read_csv :: "string \<Rightarrow> string list list" where
  "read_csv chars = read_from Plain [] [] chars"

text \<open>A record whose condition holds a comma and double quotes.\<close>

definition stormy_weather :: WeatherData where
  "stormy_weather =
     london_weather\<lparr>condition := PStr (''Rain, '' @ [CHR 0x22] @ ''heavy'' @ [CHR 0x22])\<rparr>"

section \<open>Lemmas about the procedures\<close>

lemma try_except_all:
  "try_except b is_Exception h s =
     (case b s of (Inr x, s') \<Rightarrow> (Inr x, s') | (Inl e, s') \<Rightarrow> h e s')"
  by (simp add: try_except_def is_Exception_def split: prod.splits sum.splits)

lemmas io_defs = io_bind_def io_return_def io_lift_def io_modify_def

lemma update_forecast_graph_frame:
  "update_forecast_graph w fc s =
     (Inr (), s\<lparr>ax_plot := ax_plot (snd (update_forecast_graph w fc s)),
               logged := logged (snd (update_forecast_graph w fc s))\<rparr>)"
  by (simp add: update_forecast_graph_def try_except_all io_defs logger_error_def
      split: sum.splits option.splits)

lemma save_weather_data_eq:
  "save_weather_data w city weather s =
     (Inr (), case to_csv_raises w of
                Some e \<Rightarrow> s\<lparr>logged := logged s @ [''Failed to save weather data: '' @ exn_str e]\<rparr>
              | None \<Rightarrow> s\<lparr>history_file :=
                  Some (to_csv (history_file s = None) history_columns
                         (history_row w city weather) (history_file s))\<rparr>)"
  by (simp add: save_weather_data_def try_except_all io_defs logger_error_def
      split: option.splits)

lemma update_ui_eq:
  "update_ui w city weather s =
     (Inr (),
      (case icon_result w (icon_url weather) of
         Inr photo \<Rightarrow> (\<lambda>s. s\<lparr>icon_label := Some photo\<rparr>)
       | Inl e \<Rightarrow> (\<lambda>s. s\<lparr>logged := logged s @ [''Failed to update weather icon: '' @ exn_str e]\<rparr>))
      (s\<lparr>temp_var := [Val (temperature weather), Lit degrees_C],
         condition_var := [Val (condition weather)],
         humidity_var := [Val (humidity weather), Lit ''%''],
         wind_var := [Val (wind_speed weather), Lit '' km/h''],
         pressure_var := [Val (pressure weather), Lit '' mb''],
         http_log := http_log s @ [icon_request (icon_url weather)]\<rparr>))"
  by (simp add: update_ui_def try_except_all io_defs logger_error_def requests_get_def
      icon_result_def ebind_def split: sum.splits)

lemma io_bind_unit: "fst (m s) = Inr () \<Longrightarrow> io_bind m f s = f () (snd (m s))"
  by (cases "m s") (simp add: io_bind_def)

lemma io_bind_lift: "io_bind (io_lift r) f s = (case r of Inl e \<Rightarrow> (Inl e, s) | Inr x \<Rightarrow> f x s)"
  by (simp add: io_bind_def io_lift_def split: sum.splits)

lemma update_ui_fst: "fst (update_ui w city weather s) = Inr ()"
  by (simp add: update_ui_eq)

lemma update_forecast_graph_fst: "fst (update_forecast_graph w fc s) = Inr ()"
  by (subst update_forecast_graph_frame) simp

lemma save_weather_data_fst: "fst (save_weather_data w city weather s) = Inr ()"
  by (simp add: save_weather_data_eq)

lemma set_status_eq:
  "set_status t s = (Inr (), s\<lparr>status_var := t, status_log := status_log s @ [t]\<rparr>)"
  by (simp add: set_status_def io_modify_def)

lemma process_weather_data_eq:
  "process_weather_data w city data s =
     (Inr (),
      case make_weather data of
        Inl e \<Rightarrow> process_failed e s
      | Inr weather \<Rightarrow>
          (case getitem data (KStr ''forecast'') of
             Inl e \<Rightarrow> process_failed e (snd (update_ui w city weather s))
           | Inr fc \<Rightarrow>
               process_done city
                 (snd (save_weather_data w city weather
                    (snd (update_forecast_graph w fc (snd (update_ui w city weather s))))))))"
  by (simp add: process_weather_data_def try_except_all io_bind_lift io_bind_unit
      update_ui_fst update_forecast_graph_fst save_weather_data_fst set_status_eq
      logger_error_def io_modify_def process_failed_def process_done_def
      split: sum.splits)

lemma get_weather_try_eq:
  "get_weather_try w city s =
     (get_weather_value w (current_request s city) (forecast_request s city),
      s\<lparr>http_log := http_log s @
           get_weather_requests w (current_request s city) (forecast_request s city)\<rparr>)"
  by (simp add: get_weather_try_def io_defs requests_get_def ebind_def get_weather_value_def
      get_weather_requests_def split: sum.splits)

lemma current_request_fetch_log [simp]:
  "current_request (s\<lparr>fetch_log := x\<rparr>) city = current_request s city"
  "forecast_request (s\<lparr>fetch_log := x\<rparr>) city = forecast_request s city"
  by (simp_all add: current_request_def forecast_request_def)

lemma current_request_status [simp]:
  "current_request (s\<lparr>status_var := x, status_log := y\<rparr>) city = current_request s city"
  "forecast_request (s\<lparr>status_var := x, status_log := y\<rparr>) city = forecast_request s city"
  by (simp_all add: current_request_def forecast_request_def)

lemma get_weather_eq:
  "get_weather w city s =
     (case get_weather_value w (current_request s city) (forecast_request s city) of
        Inr v \<Rightarrow> Inr v
      | Inl e \<Rightarrow> if is_RequestException e then Inr PNone else Inl e,
      s\<lparr>fetch_log := fetch_log s @ [FetchBegin city, FetchEnd city],
        http_log := http_log s @
           get_weather_requests w (current_request s city) (forecast_request s city),
        logged := logged s @
           (case get_weather_value w (current_request s city) (forecast_request s city) of
              Inr v \<Rightarrow> []
            | Inl e \<Rightarrow> if is_RequestException e
                       then [''API request failed: '' @ exn_str e] else [])\<rparr>)"
  by (simp add: get_weather_def get_weather_try_eq try_except_def io_defs logger_error_def
      split: sum.splits)

lemma process_weather_data_fst: "fst (process_weather_data w city data s) = Inr ()"
  by (simp add: process_weather_data_eq)

lemma io_bind_cases:
  "io_bind m f s = (case fst (m s) of Inl e \<Rightarrow> (Inl e, snd (m s)) | Inr x \<Rightarrow> f x (snd (m s)))"
  by (cases "m s") (simp add: io_bind_def split: sum.splits)

lemma set_status_fst: "fst (set_status t s) = Inr ()"
  by (simp add: set_status_eq)

lemma set_status_snd:
  "snd (set_status t s) = s\<lparr>status_var := t, status_log := status_log s @ [t]\<rparr>"
  by (simp add: set_status_eq)

lemma task_done_eq:
  "try_except (io_bind m (\<lambda>_. task_done)) is_Exception
     (\<lambda>e. io_bind (logger_error (''Update worker error: '' @ exn_str e)) (\<lambda>_.
           set_status ''An error occurred'')) s =
   (Inr (), case fst (m s) of Inl e \<Rightarrow> worker_failed e (snd (m s))
            | Inr x \<Rightarrow> finish_task (snd (m s)))"
  by (simp add: try_except_all io_bind_cases task_done_def worker_failed_def finish_task_def
      logger_error_def io_modify_def set_status_eq split: sum.splits)

lemma io_bind_assoc: "io_bind (io_bind m f) g = io_bind m (\<lambda>x. io_bind (f x) g)"
  by (rule ext) (simp add: io_bind_def split: prod.splits sum.splits)

lemma update_worker_iter_eq:
  "update_worker_iter w city s =
     (Inr (),
      let s1 = s\<lparr>status_var := ''Fetching weather data for '' @ city @ ''...'',
                 status_log := status_log s @ [''Fetching weather data for '' @ city @ ''...'']\<rparr>
      in case fst (get_weather w city s1) of
           Inl e \<Rightarrow> worker_failed e (snd (get_weather w city s1))
         | Inr v \<Rightarrow>
             finish_task
               (if truthy v then snd (process_weather_data w city v (snd (get_weather w city s1)))
                else (snd (get_weather w city s1))
                       \<lparr>status_var := ''Failed to fetch weather data'',
                         status_log := status_log (snd (get_weather w city s1)) @
                                         [''Failed to fetch weather data'']\<rparr>))"
proof -
  let ?s1 = "s\<lparr>status_var := ''Fetching weather data for '' @ city @ ''...'',
                status_log := status_log s @ [''Fetching weather data for '' @ city @ ''...'']\<rparr>"
  let ?m = "io_bind (set_status (''Fetching weather data for '' @ city @ ''...'')) (\<lambda>_.
            io_bind (get_weather w city) (\<lambda>weather_data.
              if truthy weather_data then process_weather_data w city weather_data
              else set_status ''Failed to fetch weather data''))"
  have try_eq: "update_worker_try w city = io_bind ?m (\<lambda>_. task_done)"
    by (simp add: update_worker_try_def io_bind_assoc)
  have m_fst: "fst (?m s) =
      (case fst (get_weather w city ?s1) of Inl e \<Rightarrow> Inl e | Inr v \<Rightarrow> Inr ())"
    by (simp add: io_bind_cases set_status_fst set_status_snd process_weather_data_fst
        split: sum.splits)
  have m_snd: "snd (?m s) =
      (case fst (get_weather w city ?s1) of
         Inl e \<Rightarrow> snd (get_weather w city ?s1)
       | Inr v \<Rightarrow>
           if truthy v then snd (process_weather_data w city v (snd (get_weather w city ?s1)))
           else (snd (get_weather w city ?s1))
                  \<lparr>status_var := ''Failed to fetch weather data'',
                    status_log := status_log (snd (get_weather w city ?s1)) @
                                    [''Failed to fetch weather data'']\<rparr>)"
    by (simp add: io_bind_cases set_status_fst set_status_snd process_weather_data_fst
        split: sum.splits)
  show ?thesis
    unfolding update_worker_iter_def try_eq task_done_eq m_fst m_snd
    by (simp add: Let_def split: sum.splits)
qed

lemma update_ui_frame:
  "update_queue (snd (update_ui w city weather s)) = update_queue s"
  "unfinished_tasks (snd (update_ui w city weather s)) = unfinished_tasks s"
  "fetch_log (snd (update_ui w city weather s)) = fetch_log s"
  "status_log (snd (update_ui w city weather s)) = status_log s"
  "history_file (snd (update_ui w city weather s)) = history_file s"
  "http_log (snd (update_ui w city weather s)) = http_log s @ [icon_request (icon_url weather)]"
  by (simp_all add: update_ui_eq split: sum.splits)

lemma update_ui_display:
  "temp_var (snd (update_ui w city weather s)) = [Val (temperature weather), Lit degrees_C]"
  "condition_var (snd (update_ui w city weather s)) = [Val (condition weather)]"
  "humidity_var (snd (update_ui w city weather s)) = [Val (humidity weather), Lit ''%'']"
  "wind_var (snd (update_ui w city weather s)) = [Val (wind_speed weather), Lit '' km/h'']"
  "pressure_var (snd (update_ui w city weather s)) = [Val (pressure weather), Lit '' mb'']"
  by (simp_all add: update_ui_eq split: sum.splits)

lemma update_forecast_graph_snd:
  "snd (update_forecast_graph w fc s) =
     s\<lparr>ax_plot := ax_plot (snd (update_forecast_graph w fc s)),
       logged := logged (snd (update_forecast_graph w fc s))\<rparr>"
  by (subst update_forecast_graph_frame) simp

lemma update_forecast_graph_fields:
  "update_queue (snd (update_forecast_graph w fc s)) = update_queue s"
  "unfinished_tasks (snd (update_forecast_graph w fc s)) = unfinished_tasks s"
  "fetch_log (snd (update_forecast_graph w fc s)) = fetch_log s"
  "status_log (snd (update_forecast_graph w fc s)) = status_log s"
  "history_file (snd (update_forecast_graph w fc s)) = history_file s"
  "http_log (snd (update_forecast_graph w fc s)) = http_log s"
  "temp_var (snd (update_forecast_graph w fc s)) = temp_var s"
  "condition_var (snd (update_forecast_graph w fc s)) = condition_var s"
  "humidity_var (snd (update_forecast_graph w fc s)) = humidity_var s"
  "wind_var (snd (update_forecast_graph w fc s)) = wind_var s"
  "pressure_var (snd (update_forecast_graph w fc s)) = pressure_var s"
  "icon_label (snd (update_forecast_graph w fc s)) = icon_label s"
  by (subst update_forecast_graph_snd, simp)+

lemma save_weather_data_fields:
  "update_queue (snd (save_weather_data w city weather s)) = update_queue s"
  "unfinished_tasks (snd (save_weather_data w city weather s)) = unfinished_tasks s"
  "fetch_log (snd (save_weather_data w city weather s)) = fetch_log s"
  "status_log (snd (save_weather_data w city weather s)) = status_log s"
  "http_log (snd (save_weather_data w city weather s)) = http_log s"
  "temp_var (snd (save_weather_data w city weather s)) = temp_var s"
  "condition_var (snd (save_weather_data w city weather s)) = condition_var s"
  "humidity_var (snd (save_weather_data w city weather s)) = humidity_var s"
  "wind_var (snd (save_weather_data w city weather s)) = wind_var s"
  "pressure_var (snd (save_weather_data w city weather s)) = pressure_var s"
  "icon_label (snd (save_weather_data w city weather s)) = icon_label s"
  by (simp_all add: save_weather_data_eq split: option.splits)

lemmas sub_fields = update_ui_frame update_forecast_graph_fields save_weather_data_fields

lemma process_weather_data_fields:
  "update_queue (snd (process_weather_data w city data s)) = update_queue s"
  "unfinished_tasks (snd (process_weather_data w city data s)) = unfinished_tasks s"
  "fetch_log (snd (process_weather_data w city data s)) = fetch_log s"
  by (simp_all add: process_weather_data_eq process_failed_def process_done_def sub_fields
      split: sum.splits)

lemma process_weather_data_status:
  "status_log (snd (process_weather_data w city data s)) =
     status_log s @ [process_outcome city data]"
  "status_var (snd (process_weather_data w city data s)) = process_outcome city data"
  by (simp_all add: process_weather_data_eq process_failed_def process_done_def sub_fields
      process_outcome_def ebind_def split: sum.splits)

lemma process_weather_data_http:
  "http_log (snd (process_weather_data w city data s)) =
     http_log s @ (case make_weather data of
                     Inl e \<Rightarrow> []
                   | Inr weather \<Rightarrow> [icon_request (icon_url weather)])"
  by (simp add: process_weather_data_eq process_failed_def process_done_def sub_fields
      split: sum.splits)

lemma get_weather_fields:
  "update_queue (snd (get_weather w city s)) = update_queue s"
  "unfinished_tasks (snd (get_weather w city s)) = unfinished_tasks s"
  "fetch_log (snd (get_weather w city s)) = fetch_log s @ [FetchBegin city, FetchEnd city]"
  "status_log (snd (get_weather w city s)) = status_log s"
  "status_var (snd (get_weather w city s)) = status_var s"
  "history_file (snd (get_weather w city s)) = history_file s"
  "http_log (snd (get_weather w city s)) =
     http_log s @ get_weather_requests w (current_request s city) (forecast_request s city)"
  "temp_var (snd (get_weather w city s)) = temp_var s"
  "condition_var (snd (get_weather w city s)) = condition_var s"
  "humidity_var (snd (get_weather w city s)) = humidity_var s"
  "wind_var (snd (get_weather w city s)) = wind_var s"
  "pressure_var (snd (get_weather w city s)) = pressure_var s"
  "icon_label (snd (get_weather w city s)) = icon_label s"
  by (simp_all add: get_weather_eq)

lemma finish_task_fields:
  "update_queue (finish_task s) = update_queue s"
  "fetch_log (finish_task s) = fetch_log s"
  "history_file (finish_task s) = history_file s"
  "http_log (finish_task s) = http_log s"
  "temp_var (finish_task s) = temp_var s"
  "condition_var (finish_task s) = condition_var s"
  "humidity_var (finish_task s) = humidity_var s"
  "wind_var (finish_task s) = wind_var s"
  "pressure_var (finish_task s) = pressure_var s"
  "icon_label (finish_task s) = icon_label s"
  by (simp_all add: finish_task_def worker_failed_def)

lemma worker_failed_fields:
  "update_queue (worker_failed e s) = update_queue s"
  "unfinished_tasks (worker_failed e s) = unfinished_tasks s"
  "fetch_log (worker_failed e s) = fetch_log s"
  "history_file (worker_failed e s) = history_file s"
  "http_log (worker_failed e s) = http_log s"
  "temp_var (worker_failed e s) = temp_var s"
  "condition_var (worker_failed e s) = condition_var s"
  "humidity_var (worker_failed e s) = humidity_var s"
  "wind_var (worker_failed e s) = wind_var s"
  "pressure_var (worker_failed e s) = pressure_var s"
  "icon_label (worker_failed e s) = icon_label s"
  by (simp_all add: worker_failed_def)

lemma update_worker_iter_fst: "fst (update_worker_iter w city s) = Inr ()"
  by (simp add: update_worker_iter_eq)

lemma update_worker_iter_queue:
  "update_queue (snd (update_worker_iter w city s)) = update_queue s"
  by (simp add: update_worker_iter_eq Let_def finish_task_fields worker_failed_fields
      process_weather_data_fields get_weather_fields split: sum.splits)

lemma update_worker_iter_fetch_log:
  "fetch_log (snd (update_worker_iter w city s)) = fetch_log s @ [FetchBegin city, FetchEnd city]"
  by (simp add: update_worker_iter_eq Let_def finish_task_fields worker_failed_fields
      process_weather_data_fields get_weather_fields split: sum.splits)

lemma strip_Nil_iff: "(strip s = []) = list_all isspace s"
proof
  assume "strip s = []"
  then have a: "\<forall>x \<in> set (dropWhile isspace s). isspace x"
    by (simp add: strip_def dropWhile_eq_Nil_conv)
  have "dropWhile isspace s = []"
  proof (cases "dropWhile isspace s")
    case Nil
    then show ?thesis .
  next
    case (Cons a as)
    then have "\<not> isspace a" using hd_dropWhile [of isspace s] by simp
    with Cons a show ?thesis by simp
  qed
  then show "list_all isspace s"
    by (simp add: dropWhile_eq_Nil_conv list_all_iff)
next
  assume "list_all isspace s"
  then have "dropWhile isspace s = []"
    by (simp add: dropWhile_eq_Nil_conv list_all_iff)
  then show "strip s = []" by (simp only: strip_def rev.simps dropWhile.simps)
qed

lemma update_weather_eq:
  "update_weather s =
     (if strip (city_var s) = [] then s\<lparr>warnings := warnings s @ [''Please enter a city name'']\<rparr>
      else s\<lparr>update_queue := update_queue s @ [strip (city_var s)],
             unfinished_tasks := unfinished_tasks s + 1\<rparr>)"
  by (simp add: update_weather_def queue_put_def Let_def)

lemma step_alive: "fst (step a (None, s)) = None"
proof (cases a)
  case (Search query)
  then show ?thesis by simp
next
  case (Work w)
  show ?thesis
  proof (cases "update_queue s")
    case Nil
    with Work show ?thesis by simp
  next
    case (Cons city rest)
    obtain r s' where it: "update_worker_iter w city (s\<lparr>update_queue := rest\<rparr>) = (r, s')"
      by (cases "update_worker_iter w city (s\<lparr>update_queue := rest\<rparr>)")
    then have "r = Inr ()"
      using update_worker_iter_fst [of w city "s\<lparr>update_queue := rest\<rparr>"] by simp
    with Work Cons it show ?thesis by simp
  qed
qed

lemma run_alive: "fst (run acts (None, s)) = None"
proof (induction acts arbitrary: s)
  case Nil
  then show ?case by simp
next
  case (Cons a acts)
  obtain s1 where "step a (None, s) = (None, s1)"
    using step_alive [of a s] by (cases "step a (None, s)") simp
  with Cons show ?case by simp
qed

lemma step_Work_Cons:
  "update_queue s = city # rest \<Longrightarrow>
   step (Work w) (None, s) = (None, snd (update_worker_iter w city (s\<lparr>update_queue := rest\<rparr>)))"
  using update_worker_iter_fst [of w city "s\<lparr>update_queue := rest\<rparr>"]
  by (cases "update_worker_iter w city (s\<lparr>update_queue := rest\<rparr>)") simp

lemma step_fifo:
  assumes "step a (t, s) = (t1, s1)"
  shows "\<exists>cs. cs @ update_queue s1 = update_queue s @ puts [a] \<and>
              fetch_log s1 = fetch_log s @ bracket cs"
proof (cases a)
  case (Search query)
  with assms have "s1 = update_weather (s\<lparr>city_var := query\<rparr>)" by simp
  then have "[] @ update_queue s1 = update_queue s @ puts [a] \<and>
             fetch_log s1 = fetch_log s @ bracket []"
    using Search by (simp add: update_weather_eq)
  then show ?thesis by blast
next
  case (Work w)
  show ?thesis
  proof (cases t)
    case (Some e)
    with Work assms have "[] @ update_queue s1 = update_queue s @ puts [a] \<and>
             fetch_log s1 = fetch_log s @ bracket []" by auto
    then show ?thesis by blast
  next
    case None
    show ?thesis
    proof (cases "update_queue s")
      case Nil
      with Work None assms have "[] @ update_queue s1 = update_queue s @ puts [a] \<and>
             fetch_log s1 = fetch_log s @ bracket []" by auto
      then show ?thesis by blast
    next
      case (Cons city rest)
      have "step (Work w) (None, s) =
              (None, snd (update_worker_iter w city (s\<lparr>update_queue := rest\<rparr>)))"
        by (rule step_Work_Cons [OF Cons])
      with Work None assms
      have "s1 = snd (update_worker_iter w city (s\<lparr>update_queue := rest\<rparr>))"
        by (metis snd_conv)
      then have "[city] @ update_queue s1 = update_queue s @ puts [a] \<and>
             fetch_log s1 = fetch_log s @ bracket [city]"
        using Work Cons by (simp add: update_worker_iter_queue update_worker_iter_fetch_log)
      then show ?thesis by blast
    qed
  qed
qed

lemma bracket_append: "bracket (xs @ ys) = bracket xs @ bracket ys"
  by (induction xs) simp_all

lemma puts_Cons: "puts (a # as) = puts [a] @ puts as"
  by (cases a) simp_all

lemma run_fifo:
  "run acts (t, s) = (t', s') \<Longrightarrow>
   \<exists>cs. cs @ update_queue s' = update_queue s @ puts acts \<and>
        fetch_log s' = fetch_log s @ bracket cs"
proof (induction acts arbitrary: t s)
  case Nil
  then have "[] @ update_queue s' = update_queue s @ puts [] \<and>
        fetch_log s' = fetch_log s @ bracket []" by simp
  then show ?case by blast
next
  case (Cons a acts)
  obtain t1 s1 where st: "step a (t, s) = (t1, s1)" by (cases "step a (t, s)")
  from step_fifo [OF st] obtain cs1 where
    c1: "cs1 @ update_queue s1 = update_queue s @ puts [a]"
        "fetch_log s1 = fetch_log s @ bracket cs1" by blast
  from Cons.prems st have "run acts (t1, s1) = (t', s')" by simp
  from Cons.IH [OF this] obtain cs2 where
    c2: "cs2 @ update_queue s' = update_queue s1 @ puts acts"
        "fetch_log s' = fetch_log s1 @ bracket cs2" by blast
  have "(cs1 @ cs2) @ update_queue s' = update_queue s @ puts (a # acts)"
    using c1(1) c2(1) puts_Cons [of a acts] by (metis append.assoc)
  moreover have "fetch_log s' = fetch_log s @ bracket (cs1 @ cs2)"
    using c1(2) c2(2) by (simp add: bracket_append)
  ultimately show ?case by blast
qed

lemma in_flight_take_bracket:
  "0 \<le> in_flight (take n (bracket cs)) \<and> in_flight (take n (bracket cs)) \<le> 1"
proof (induction cs arbitrary: n)
  case Nil
  then show ?case by simp
next
  case (Cons c cs)
  show ?case
  proof (cases n)
    case 0
    then show ?thesis by simp
  next
    case (Suc m)
    show ?thesis
    proof (cases m)
      case 0
      with Suc show ?thesis by simp
    next
      case (Suc k)
      with \<open>n = Suc m\<close> Cons.IH [of k] show ?thesis by simp
    qed
  qed
qed

lemma get_weather_value_ok:
  "call_result w cur = Some c \<Longrightarrow> call_result w fc = Some f \<Longrightarrow>
   get_weather_value w cur fc = Inr (PDict [(''current'', c), (''forecast'', f)])"
  by (auto simp: call_result_def get_weather_value_def ebind_def raise_for_status_def
      split: sum.splits if_splits)

lemma get_weather_value_fail:
  "call_result w cur = None \<or> call_result w fc = None \<Longrightarrow>
   \<exists>e. get_weather_value w cur fc = Inl e"
  by (auto simp: call_result_def get_weather_value_def ebind_def raise_for_status_def
      split: sum.splits if_splits)

lemma get_weather_fst:
  "fst (get_weather w city s) =
     (case get_weather_value w (current_request s city) (forecast_request s city) of
        Inr v \<Rightarrow> Inr v
      | Inl e \<Rightarrow> if is_RequestException e then Inr PNone else Inl e)"
  by (simp add: get_weather_eq)

lemma call_result_good:
  "call_result good_world (current_request s city) = Some london_current"
  "call_result good_world (forecast_request s city) = Some london_forecast"
  by (simp_all add: call_result_def good_world_def current_request_def forecast_request_def)

lemma call_result_down: "call_result down_world rq = None"
  by (simp add: call_result_def down_world_def)

lemma getitem_field:
  "getitem v (KStr k) = (case field v k of Some x \<Rightarrow> Inr x | None \<Rightarrow> Inl (key_error v k))"
  by (cases v) (simp_all add: field_def key_error_def split: option.splits)

lemma key_error_class: "exn_class_of (key_error v k) = KeyError \<or> exn_class_of (key_error v k) = TypeError"
  by (cases v) (simp_all add: key_error_def)

lemma make_weather_spec:
  "case spec_normalize data of
     Some r \<Rightarrow> make_weather data = Inr r
   | None \<Rightarrow> \<exists>v k. make_weather data = Inl (key_error v k)"
  by (force simp add: make_weather_def spec_normalize_def getitem_field ebind_def
      split: option.splits Option.bind_splits)

lemma process_outcome_failed:
  "make_weather data = Inl e \<Longrightarrow> process_outcome city data = ''Failed to process weather data''"
  by (simp add: process_outcome_def ebind_def)

lemma current_request_queue [simp]:
  "current_request (s\<lparr>update_queue := x\<rparr>) city = current_request s city"
  "forecast_request (s\<lparr>update_queue := x\<rparr>) city = forecast_request s city"
  by (simp_all add: current_request_def forecast_request_def)

lemma finish_task_status:
  "0 < unfinished_tasks s \<Longrightarrow> status_log (finish_task s) = status_log s"
  "0 < unfinished_tasks s \<Longrightarrow> status_var (finish_task s) = status_var s"
  "0 < unfinished_tasks s \<Longrightarrow> unfinished_tasks (finish_task s) = unfinished_tasks s - 1"
  "0 < unfinished_tasks s \<Longrightarrow> logged (finish_task s) = logged s"
  by (simp_all add: finish_task_def)

lemma update_worker_iter_status:
  assumes "0 < unfinished_tasks s"
  shows "status_log (snd (update_worker_iter w city s)) =
           status_log s @ [fetching city, cycle_outcome w city s]"
    and "status_var (snd (update_worker_iter w city s)) = cycle_outcome w city s"
    and "unfinished_tasks s - 1 \<le> unfinished_tasks (snd (update_worker_iter w city s))"
  using assms
  by (simp_all add: update_worker_iter_eq Let_def get_weather_fst get_weather_fields
      finish_task_status process_weather_data_fields process_weather_data_status
      worker_failed_def cycle_outcome_def fetching_def split: sum.splits)

lemma cycle_outcome_in: "cycle_outcome w city s \<in> outcomes city"
  by (simp add: cycle_outcome_def outcomes_def process_outcome_def split: sum.splits)

lemma process_done_fields:
  "update_queue (process_done city s) = update_queue s"
  "unfinished_tasks (process_done city s) = unfinished_tasks s"
  "history_file (process_done city s) = history_file s"
  "logged (process_done city s) = logged s"
  "http_log (process_done city s) = http_log s"
  "temp_var (process_done city s) = temp_var s"
  "condition_var (process_done city s) = condition_var s"
  "humidity_var (process_done city s) = humidity_var s"
  "wind_var (process_done city s) = wind_var s"
  "pressure_var (process_done city s) = pressure_var s"
  "icon_label (process_done city s) = icon_label s"
  by (simp_all add: process_done_def)

lemma process_weather_data_ok:
  "make_weather data = Inr weather \<Longrightarrow> getitem data (KStr ''forecast'') = Inr fc \<Longrightarrow>
   snd (process_weather_data w city data s) =
     process_done city
       (snd (save_weather_data w city weather
          (snd (update_forecast_graph w fc (snd (update_ui w city weather s))))))"
  by (simp add: process_weather_data_eq)

lemma save_weather_data_failed:
  "to_csv_raises w = Some e \<Longrightarrow>
   snd (save_weather_data w city weather s) =
     s\<lparr>logged := logged s @ [''Failed to save weather data: '' @ exn_str e]\<rparr>"
  by (simp add: save_weather_data_eq)

lemma save_weather_data_done:
  "to_csv_raises w = None \<Longrightarrow>
   snd (save_weather_data w city weather s) =
     s\<lparr>history_file := Some (to_csv (history_file s = None) history_columns
                               (history_row w city weather) (history_file s))\<rparr>"
  by (simp add: save_weather_data_eq)

lemma update_forecast_graph_display:
  "temp_var (snd (update_forecast_graph w fc s)) = temp_var s"
  by (simp add: update_forecast_graph_fields)

lemma update_worker_iter_ok:
  assumes "call_result w (current_request s city) = Some c"
    and "call_result w (forecast_request s city) = Some f"
  shows "snd (update_worker_iter w city s) =
     finish_task (snd (process_weather_data w city (PDict [(''current'', c), (''forecast'', f)])
       (snd (get_weather w city
          (s\<lparr>status_var := fetching city, status_log := status_log s @ [fetching city]\<rparr>)))))"
proof -
  have "fst (get_weather w city
          (s\<lparr>status_var := fetching city, status_log := status_log s @ [fetching city]\<rparr>)) =
     Inr (PDict [(''current'', c), (''forecast'', f)])"
    by (simp add: get_weather_fst get_weather_value_ok [OF assms])
  then show ?thesis
    by (simp add: update_worker_iter_eq Let_def fetching_def)
qed

lemma update_worker_iter_fetch_failed:
  assumes "call_result w (current_request s city) = None \<or>
           call_result w (forecast_request s city) = None"
  shows "\<exists>e. snd (update_worker_iter w city s) =
          worker_failed e (snd (get_weather w city
            (s\<lparr>status_var := fetching city, status_log := status_log s @ [fetching city]\<rparr>))) \<or>
        snd (update_worker_iter w city s) =
          finish_task ((snd (get_weather w city
            (s\<lparr>status_var := fetching city, status_log := status_log s @ [fetching city]\<rparr>)))
              \<lparr>status_var := ''Failed to fetch weather data'',
                status_log := status_log s @ [fetching city, ''Failed to fetch weather data'']\<rparr>)"
proof -
  from get_weather_value_fail [OF assms] obtain e where
    e: "get_weather_value w (current_request s city) (forecast_request s city) = Inl e" by blast
  show ?thesis
  proof (cases "is_RequestException e")
    case True
    with e have "fst (get_weather w city
          (s\<lparr>status_var := fetching city, status_log := status_log s @ [fetching city]\<rparr>)) =
       Inr PNone"
      by (simp add: get_weather_fst)
    then show ?thesis
      by (simp add: update_worker_iter_eq Let_def fetching_def get_weather_fields)
  next
    case False
    with e have "fst (get_weather w city
          (s\<lparr>status_var := fetching city, status_log := status_log s @ [fetching city]\<rparr>)) =
       Inl e"
      by (simp add: get_weather_fst)
    then have "snd (update_worker_iter w city s) =
          worker_failed e (snd (get_weather w city
            (s\<lparr>status_var := fetching city, status_log := status_log s @ [fetching city]\<rparr>)))"
      by (simp add: update_worker_iter_eq Let_def fetching_def)
    then show ?thesis by blast
  qed
qed

lemma getitem_payload_forecast:
  "getitem (PDict [(''current'', c), (''forecast'', f)]) (KStr ''forecast'') = Inr f"
  by simp

lemma current_request_unfinished [simp]:
  "current_request (s\<lparr>unfinished_tasks := x\<rparr>) city = current_request s city"
  "forecast_request (s\<lparr>unfinished_tasks := x\<rparr>) city = forecast_request s city"
  by (simp_all add: current_request_def forecast_request_def)

lemma call_result_csv_fail:
  "call_result csv_fail_world (current_request s city) = Some london_current"
  "call_result csv_fail_world (forecast_request s city) = Some london_forecast"
  by (simp_all add: call_result_def csv_fail_world_def good_world_def current_request_def
      forecast_request_def)

lemma make_weather_london:
  "make_weather (PDict [(''current'', london_current), (''forecast'', london_forecast)]) =
     Inr london_weather"
  by (simp add: make_weather_def london_current_def london_weather_def ebind_def)

lemma update_worker_iter_save_failed:
  assumes "call_result w (current_request s city) = Some c"
    and "call_result w (forecast_request s city) = Some f"
    and "make_weather (PDict [(''current'', c), (''forecast'', f)]) = Inr weather"
    and "to_csv_raises w = Some e"
    and "0 < unfinished_tasks s"
  shows "history_file (snd (update_worker_iter w city s)) = history_file s"
    and "last (logged (snd (update_worker_iter w city s))) =
           ''Failed to save weather data: '' @ exn_str e"
    and "cycle_outcome w city s = ''Weather updated for '' @ city"
proof -
  let ?d = "PDict [(''current'', c), (''forecast'', f)]"
  let ?s1 = "snd (get_weather w city
          (s\<lparr>status_var := fetching city, status_log := status_log s @ [fetching city]\<rparr>))"
  let ?p = "snd (process_weather_data w city ?d ?s1)"
  have v: "get_weather_value w (current_request s city) (forecast_request s city) = Inr ?d"
    by (rule get_weather_value_ok [OF assms(1,2)])
  show "cycle_outcome w city s = ''Weather updated for '' @ city"
    by (simp add: cycle_outcome_def v process_outcome_def assms(3) ebind_def)
  have it: "snd (update_worker_iter w city s) = finish_task ?p"
    by (rule update_worker_iter_ok [OF assms(1,2)])
  have p: "?p = process_done city
       (snd (save_weather_data w city weather
          (snd (update_forecast_graph w f (snd (update_ui w city weather ?s1))))))"
    by (rule process_weather_data_ok [OF assms(3) getitem_payload_forecast])
  have u: "0 < unfinished_tasks ?p"
    using assms(5) by (simp add: process_weather_data_fields get_weather_fields)
  have h: "history_file ?p = history_file s"
    unfolding p
    by (simp add: process_done_fields save_weather_data_failed [OF assms(4)]
        update_forecast_graph_fields update_ui_frame get_weather_fields)
  have l: "last (logged ?p) = ''Failed to save weather data: '' @ exn_str e"
    unfolding p
    by (simp add: process_done_fields save_weather_data_failed [OF assms(4)])
  show "history_file (snd (update_worker_iter w city s)) = history_file s"
    unfolding it using h by (simp add: finish_task_fields)
  show "last (logged (snd (update_worker_iter w city s))) =
           ''Failed to save weather data: '' @ exn_str e"
    unfolding it using l by (simp add: finish_task_status(4) [OF u])
qed

lemma update_worker_iter_display:
  assumes "call_result w (current_request s city) = Some c"
    and "call_result w (forecast_request s city) = Some f"
    and "make_weather (PDict [(''current'', c), (''forecast'', f)]) = Inr weather"
  shows "temp_var (snd (update_worker_iter w city s)) = [Val (temperature weather), Lit degrees_C]"
    and "condition_var (snd (update_worker_iter w city s)) = [Val (condition weather)]"
    and "humidity_var (snd (update_worker_iter w city s)) = [Val (humidity weather), Lit ''%'']"
    and "wind_var (snd (update_worker_iter w city s)) = [Val (wind_speed weather), Lit '' km/h'']"
    and "pressure_var (snd (update_worker_iter w city s)) = [Val (pressure weather), Lit '' mb'']"
  unfolding update_worker_iter_ok [OF assms(1,2)]
    process_weather_data_ok [OF assms(3) getitem_payload_forecast]
  by (simp_all add: finish_task_fields process_done_fields save_weather_data_fields
      update_forecast_graph_fields update_ui_display)

lemma fetch_weather_not_200:
  "http_get w (pro_request city) = Inr r \<Longrightarrow> status_code r \<noteq> 200 \<Longrightarrow>
   fetch_weather w city s =
     (Inr (PNone, PNone, PNone, PNone), s\<lparr>pro_http_log := pro_http_log s @ [pro_request city]\<rparr>)"
  by (simp add: fetch_weather_def pro_requests_get_def io_bind_def io_return_def pro_request_def)

lemma pro_update_weather_not_200:
  assumes "http_get w (pro_request (city_entry s)) = Inr r" and "status_code r \<noteq> 200"
  shows "pro_update_weather w s =
     (Inr (), s\<lparr>pro_http_log := pro_http_log s @ [pro_request (city_entry s)],
               temp_label := [Lit ''Error fetching data''],
               condition_label := [], humidity_label := [], pro_icon_label := None\<rparr>)"
  by (simp add: pro_update_weather_def io_bind_def io_modify_def
      fetch_weather_not_200 [OF assms])

lemma update_worker_iter_fetch_failed_fields:
  assumes "call_result w (current_request s city) = None \<or>
           call_result w (forecast_request s city) = None"
  shows "history_file (snd (update_worker_iter w city s)) = history_file s"
    and "temp_var (snd (update_worker_iter w city s)) = temp_var s"
    and "condition_var (snd (update_worker_iter w city s)) = condition_var s"
    and "humidity_var (snd (update_worker_iter w city s)) = humidity_var s"
    and "wind_var (snd (update_worker_iter w city s)) = wind_var s"
    and "pressure_var (snd (update_worker_iter w city s)) = pressure_var s"
    and "icon_label (snd (update_worker_iter w city s)) = icon_label s"
    and "http_log (snd (update_worker_iter w city s)) =
           http_log s @ get_weather_requests w (current_request s city) (forecast_request s city)"
  using update_worker_iter_fetch_failed [OF assms]
  by (auto simp add: worker_failed_fields finish_task_fields get_weather_fields)

lemma call_result_Some_get:
  "call_result w rq = Some v \<Longrightarrow> \<exists>r. http_get w rq = Inr r"
  by (auto simp: call_result_def split: sum.splits)

lemma update_worker_iter_http_ok:
  assumes "call_result w (current_request s city) = Some c"
    and "call_result w (forecast_request s city) = Some f"
  shows "http_log (snd (update_worker_iter w city s)) =
     http_log s @ [current_request s city, forecast_request s city] @
       (case make_weather (PDict [(''current'', c), (''forecast'', f)]) of
          Inl e \<Rightarrow> []
        | Inr weather \<Rightarrow> [icon_request (icon_url weather)])"
proof -
  from call_result_Some_get [OF assms(1)] obtain r where
    "http_get w (current_request s city) = Inr r" by blast
  then have "get_weather_requests w (current_request s city) (forecast_request s city) =
      [current_request s city, forecast_request s city]"
    by (simp add: get_weather_requests_def)
  then show ?thesis
    unfolding update_worker_iter_ok [OF assms]
    by (simp add: finish_task_fields process_weather_data_http get_weather_fields)
qed

lemma save_weather_data_http:
  "http_log (snd (save_weather_data w city weather s)) = http_log s"
  by (simp add: save_weather_data_fields)

lemma get_weather_http_subset:
  "set (http_log (snd (get_weather w city s))) \<subseteq>
     set (http_log s) \<union> {current_request s city, forecast_request s city}"
  by (auto simp add: get_weather_fields get_weather_requests_def split: sum.splits)

lemma save_weather_data_history:
  "to_csv_raises w = None \<Longrightarrow>
   history_file (snd (save_weather_data w city weather s)) =
     Some ((case history_file s of None \<Rightarrow> [Header history_columns] | Some ls \<Rightarrow> ls) @
           [Row (history_row w city weather)])"
  by (simp add: save_weather_data_done to_csv_def split: option.splits)

lemma save_all_existing:
  "history_file s = Some ls \<Longrightarrow> \<forall>r \<in> set rs. to_csv_raises (fst r) = None \<Longrightarrow>
   history_file (save_all rs s) =
     Some (ls @ map (\<lambda>r. Row (history_row (fst r) (fst (snd r)) (snd (snd r)))) rs)"
proof (induction rs arbitrary: s ls)
  case Nil
  then show ?case by simp
next
  case (Cons r rs)
  from Cons.prems have ok: "to_csv_raises (fst r) = None" by simp
  have "history_file (snd (save_weather_data (fst r) (fst (snd r)) (snd (snd r)) s)) =
      Some (ls @ [Row (history_row (fst r) (fst (snd r)) (snd (snd r)))])"
    using Cons.prems(1) by (simp add: save_weather_data_history [OF ok])
  from Cons.IH [OF this] Cons.prems(2) show ?case by simp
qed

lemma save_all_new:
  assumes "history_file s = None" and "rs \<noteq> []"
    and "\<forall>r \<in> set rs. to_csv_raises (fst r) = None"
  shows "history_file (save_all rs s) =
     Some (Header history_columns #
           map (\<lambda>r. Row (history_row (fst r) (fst (snd r)) (snd (snd r)))) rs)"
proof (cases rs)
  case Nil
  with assms(2) show ?thesis by simp
next
  case (Cons r rs')
  with assms(3) have ok: "to_csv_raises (fst r) = None"
    and oks: "\<forall>r \<in> set rs'. to_csv_raises (fst r) = None" by simp_all
  have "history_file (snd (save_weather_data (fst r) (fst (snd r)) (snd (snd r)) s)) =
      Some ([Header history_columns, Row (history_row (fst r) (fst (snd r)) (snd (snd r)))])"
    using assms(1) by (simp add: save_weather_data_history [OF ok])
  from save_all_existing [OF this oks] Cons show ?thesis by simp
qed

lemma save_to_csv_history:
  "to_csv_raises w = None \<Longrightarrow>
   weather_history (snd (save_to_csv w city t c h p)) =
     Some ((case weather_history p of None \<Rightarrow> [] | Some ls \<Rightarrow> ls) @ [Row [PStr city, t, c, h]])"
  by (simp add: save_to_csv_def to_csv_def)





lemma tk_write_None: "tk_write None f = io_modify f"
  by (simp add: tk_write_def)

lemma set_status_tk_None: "set_status_tk None = set_status"
  by (rule ext) (simp add: set_status_tk_def set_status_def tk_write_None)

lemma update_ui_tk_None: "update_ui_tk None = update_ui"
  by (intro ext) (simp add: update_ui_tk_def update_ui_def tk_write_None)

lemma process_weather_data_tk_None: "process_weather_data_tk None = process_weather_data"
  by (intro ext)
    (simp add: process_weather_data_tk_def process_weather_data_def update_ui_tk_None
      set_status_tk_None)

lemma update_worker_iter_tk_None: "update_worker_iter_tk None = update_worker_iter"
  by (intro ext)
    (simp add: update_worker_iter_tk_def update_worker_iter_def update_worker_try_tk_def
      update_worker_try_def process_weather_data_tk_None set_status_tk_None cong: if_cong)




lemma update_worker_alive:
  "\<forall>p \<in> set ps. fst p = None \<Longrightarrow> fst (update_worker ps s) = None"
proof (induction ps arbitrary: s)
  case Nil
  then show ?case by simp
next
  case (Cons p ps)
  show ?case
  proof (cases "update_queue s")
    case Nil
    then show ?thesis by simp
  next
    case (Cons city rest)
    from Cons.prems have tk: "fst p = None" by simp
    have "fst (update_worker_iter_tk (fst p) (snd p) city (s\<lparr>update_queue := rest\<rparr>)) = Inr ()"
      by (simp add: tk update_worker_iter_tk_None update_worker_iter_fst)
    then obtain s' where
      "update_worker_iter_tk (fst p) (snd p) city (s\<lparr>update_queue := rest\<rparr>) = (Inr (), s')"
      by (cases "update_worker_iter_tk (fst p) (snd p) city (s\<lparr>update_queue := rest\<rparr>)") simp
    with Cons Cons.prems Cons.IH [of s'] show ?thesis by simp
  qed
qed

lemma enter_fetch_eq:
  "enter_fetch city s =
     (Inr True, s\<lparr>status_var := fetching city, status_log := status_log s @ [fetching city]\<rparr>)"
  by (simp add: enter_fetch_def try_except_all io_bind_cases set_status_eq io_return_def
      fetching_def)

lemma leave_fetch_eq:
  "leave_fetch w city s =
     (Inr (), case fst (get_weather w city s) of
        Inl e \<Rightarrow> worker_failed e (snd (get_weather w city s))
      | Inr v \<Rightarrow>
          finish_task
            (if truthy v then snd (process_weather_data w city v (snd (get_weather w city s)))
             else (snd (get_weather w city s))
                    \<lparr>status_var := ''Failed to fetch weather data'',
                      status_log := status_log (snd (get_weather w city s)) @
                                      [''Failed to fetch weather data'']\<rparr>))"
proof -
  let ?m = "io_bind (get_weather w city) (\<lambda>weather_data.
              if truthy weather_data then process_weather_data w city weather_data
              else set_status ''Failed to fetch weather data'')"
  have b: "io_bind (get_weather w city) (\<lambda>weather_data.
        io_bind (if truthy weather_data then process_weather_data w city weather_data
                 else set_status ''Failed to fetch weather data'') (\<lambda>_.
        task_done)) = io_bind ?m (\<lambda>_. task_done)"
    by (simp add: io_bind_assoc)
  have m_fst: "fst (?m s) = (case fst (get_weather w city s) of Inl e \<Rightarrow> Inl e | Inr v \<Rightarrow> Inr ())"
    by (simp add: io_bind_cases set_status_fst process_weather_data_fst split: sum.splits)
  have m_snd: "snd (?m s) =
      (case fst (get_weather w city s) of
         Inl e \<Rightarrow> snd (get_weather w city s)
       | Inr v \<Rightarrow>
           if truthy v then snd (process_weather_data w city v (snd (get_weather w city s)))
           else (snd (get_weather w city s))
                  \<lparr>status_var := ''Failed to fetch weather data'',
                    status_log := status_log (snd (get_weather w city s)) @
                                    [''Failed to fetch weather data'']\<rparr>)"
    by (simp add: io_bind_cases set_status_snd process_weather_data_fst split: sum.splits)
  have h: "worker_handler = (\<lambda>e. io_bind (logger_error (''Update worker error: '' @ exn_str e))
             (\<lambda>_. set_status ''An error occurred''))"
    by (rule ext) (simp add: worker_handler_def)
  show ?thesis
    unfolding leave_fetch_def b h task_done_eq m_fst m_snd
    by (simp split: sum.splits)
qed

lemma pass_in_two_halves:
  "update_worker_iter w city s = leave_fetch w city (snd (enter_fetch city s))"
  by (simp add: update_worker_iter_eq leave_fetch_eq enter_fetch_eq Let_def fetching_def)

lemma in_flight_append: "in_flight (xs @ ys) = in_flight xs + in_flight ys"
  by (induction xs rule: in_flight.induct) simp_all

lemma begun_append: "begun (xs @ ys) = begun xs @ begun ys"
  by (induction xs rule: begun.induct) simp_all

lemma take_snoc: "take n (es @ [x]) = (if n \<le> length es then take n es else es @ [x])"
  by (cases "n \<le> length es") simp_all

lemma prefixes_snoc:
  assumes "\<forall>n. 0 \<le> in_flight (take n es) \<and> in_flight (take n es) \<le> k"
    and "0 \<le> in_flight (es @ [x])" and "in_flight (es @ [x]) \<le> k"
  shows "\<forall>n. 0 \<le> in_flight (take n (es @ [x])) \<and> in_flight (take n (es @ [x])) \<le> k"
proof
  fix n
  show "0 \<le> in_flight (take n (es @ [x])) \<and> in_flight (take n (es @ [x])) \<le> k"
  proof (cases "n \<le> length es")
    case True
    then have "take n (es @ [x]) = take n es" by simp
    with assms(1) show ?thesis by simp
  next
    case False
    then have "take n (es @ [x]) = es @ [x]" by simp
    with assms(2,3) show ?thesis by simp
  qed
qed

lemma count_update_gain:
  "i < length ts \<Longrightarrow> \<not> P (ts ! i) \<Longrightarrow> P y \<Longrightarrow>
   length (filter P (ts[i := y])) = Suc (length (filter P ts))"
  by (induction ts arbitrary: i) (auto split: nat.splits)

lemma count_update_loss:
  "i < length ts \<Longrightarrow> P (ts ! i) \<Longrightarrow> \<not> P y \<Longrightarrow>
   Suc (length (filter P (ts[i := y]))) = length (filter P ts)"
  by (induction ts arbitrary: i) (auto split: nat.splits)

lemma occur_Dequeue_take:
  "i < length (threads p) \<Longrightarrow> threads p ! i = Waiting \<Longrightarrow> update_queue (app p) = c # rest \<Longrightarrow>
   occur (Dequeue i) p =
     p\<lparr>threads := (threads p)[i := InFetch c], trace := trace p @ [FetchBegin c],
       app := snd (enter_fetch c ((app p)\<lparr>update_queue := rest\<rparr>))\<rparr>"
  by (simp add: enter_fetch_eq)

lemma occur_Dequeue_idle:
  "\<not> (i < length (threads p) \<and> threads p ! i = Waiting) \<or> update_queue (app p) = [] \<Longrightarrow>
   occur (Dequeue i) p = p"
  by auto

lemma occur_Return_done:
  "i < length (threads p) \<Longrightarrow> threads p ! i = InFetch c \<Longrightarrow>
   occur (Return i w) p =
     p\<lparr>threads := (threads p)[i := Waiting], trace := trace p @ [FetchEnd c],
       app := snd (leave_fetch w c (app p))\<rparr>"
  by (simp add: leave_fetch_eq)

lemma occur_Return_idle:
  "\<not> (i < length (threads p) \<and> is_InFetch (threads p ! i)) \<Longrightarrow> occur (Return i w) p = p"
  by (cases "threads p ! i") auto

lemma leave_fetch_frame:
  "update_queue (snd (leave_fetch w c s)) = update_queue s"
  "fetch_log (snd (leave_fetch w c s)) = fetch_log s @ [FetchBegin c, FetchEnd c]"
  by (simp_all add: leave_fetch_eq finish_task_fields worker_failed_fields
      process_weather_data_fields get_weather_fields split: sum.splits)

lemma enter_fetch_frame:
  "update_queue (snd (enter_fetch c s)) = update_queue s"
  "fetch_log (snd (enter_fetch c s)) = fetch_log s"
  by (simp_all add: enter_fetch_eq)

lemma occur_threads_length: "length (threads (occur x p)) = length (threads p)"
proof (cases x)
  case (User query)
  then show ?thesis by simp
next
  case (Dequeue i)
  show ?thesis
  proof (cases "i < length (threads p) \<and> threads p ! i = Waiting")
    case True
    then show ?thesis
      using Dequeue by (cases "update_queue (app p)") (simp_all add: enter_fetch_eq)
  next
    case False
    then show ?thesis using Dequeue occur_Dequeue_idle [of i p] by simp
  qed
next
  case (Return i w)
  show ?thesis
  proof (cases "i < length (threads p) \<and> is_InFetch (threads p ! i)")
    case True
    then obtain c where f: "threads p ! i = InFetch c" by (cases "threads p ! i") auto
    from True have i: "i < length (threads p)" by simp
    have "occur x p =
        p\<lparr>threads := (threads p)[i := Waiting], trace := trace p @ [FetchEnd c],
          app := snd (leave_fetch w c (app p))\<rparr>"
      using Return occur_Return_done [OF i f] by simp
    then show ?thesis by simp
  next
    case False
    then show ?thesis using Return occur_Return_idle [of i p w] by simp
  qed
qed

lemma occur_all_threads_length: "length (threads (occur_all xs p)) = length (threads p)"
  by (induction xs arbitrary: p) (simp_all add: occur_threads_length)

lemma occur_in_flight:
  assumes c: "in_flight (trace p) = int (length (filter is_InFetch (threads p)))"
    and b: "\<forall>n. 0 \<le> in_flight (take n (trace p)) \<and>
                in_flight (take n (trace p)) \<le> int (length (threads p))"
  shows "in_flight (trace (occur x p)) = int (length (filter is_InFetch (threads (occur x p)))) \<and>
         (\<forall>n. 0 \<le> in_flight (take n (trace (occur x p))) \<and>
              in_flight (take n (trace (occur x p))) \<le> int (length (threads (occur x p))))"
proof (cases x)
  case (User query)
  with c b show ?thesis by simp
next
  case (Dequeue i)
  show ?thesis
  proof (cases "i < length (threads p) \<and> threads p ! i = Waiting \<and> update_queue (app p) \<noteq> []")
    case False
    then have "occur (Dequeue i) p = p" using occur_Dequeue_idle [of i p] by blast
    with Dequeue c b show ?thesis by simp
  next
    case True
    then obtain city rest where q: "update_queue (app p) = city # rest"
      by (cases "update_queue (app p)") auto
    from True have i: "i < length (threads p)" and w: "threads p ! i = Waiting" by simp_all
    have o: "occur x p =
        p\<lparr>threads := (threads p)[i := InFetch city], trace := trace p @ [FetchBegin city],
          app := snd (enter_fetch city ((app p)\<lparr>update_queue := rest\<rparr>))\<rparr>"
      using Dequeue occur_Dequeue_take [OF i w q] by simp
    have n: "length (filter is_InFetch ((threads p)[i := InFetch city])) =
        Suc (length (filter is_InFetch (threads p)))"
      using count_update_gain [OF i, of is_InFetch "InFetch city"] w by simp
    have le: "length (filter is_InFetch ((threads p)[i := InFetch city])) \<le> length (threads p)"
      using length_filter_le [of is_InFetch "(threads p)[i := InFetch city]"] by simp
    have total: "in_flight (trace p @ [FetchBegin city]) =
        int (length (filter is_InFetch ((threads p)[i := InFetch city])))"
      using c n by (simp add: in_flight_append)
    have "\<forall>n. 0 \<le> in_flight (take n (trace p @ [FetchBegin city])) \<and>
        in_flight (take n (trace p @ [FetchBegin city])) \<le> int (length (threads p))"
      using b total le by (intro prefixes_snoc) simp_all
    then show ?thesis
      unfolding o using total by simp
  qed
next
  case (Return i w)
  show ?thesis
  proof (cases "i < length (threads p) \<and> is_InFetch (threads p ! i)")
    case False
    then have "occur (Return i w) p = p" using occur_Return_idle [of i p w] by blast
    with Return c b show ?thesis by simp
  next
    case True
    then obtain city where f: "threads p ! i = InFetch city" by (cases "threads p ! i") auto
    from True have i: "i < length (threads p)" by simp
    have o: "occur x p =
        p\<lparr>threads := (threads p)[i := Waiting], trace := trace p @ [FetchEnd city],
          app := snd (leave_fetch w city (app p))\<rparr>"
      using Return occur_Return_done [OF i f] by simp
    have n: "Suc (length (filter is_InFetch ((threads p)[i := Waiting]))) =
        length (filter is_InFetch (threads p))"
      using count_update_loss [OF i, of is_InFetch Waiting] f by simp
    have total: "in_flight (trace p @ [FetchEnd city]) =
        int (length (filter is_InFetch ((threads p)[i := Waiting])))"
      using c n by (simp add: in_flight_append)
    have le: "length (filter is_InFetch ((threads p)[i := Waiting])) \<le> length (threads p)"
      using length_filter_le [of is_InFetch "(threads p)[i := Waiting]"] by simp
    have "\<forall>n. 0 \<le> in_flight (take n (trace p @ [FetchEnd city])) \<and>
        in_flight (take n (trace p @ [FetchEnd city])) \<le> int (length (threads p))"
      using b total le by (intro prefixes_snoc) simp_all
    then show ?thesis
      unfolding o using total by simp
  qed
qed

lemma occur_all_in_flight:
  assumes "in_flight (trace p) = int (length (filter is_InFetch (threads p)))"
    and "\<forall>n. 0 \<le> in_flight (take n (trace p)) \<and>
             in_flight (take n (trace p)) \<le> int (length (threads p))"
  shows "\<forall>n. 0 \<le> in_flight (take n (trace (occur_all xs p))) \<and>
             in_flight (take n (trace (occur_all xs p))) \<le> int (length (threads p))"
  using assms
proof (induction xs arbitrary: p)
  case Nil
  then show ?case by simp
next
  case (Cons x xs)
  from occur_in_flight [OF Cons.prems, of x]
  have "\<forall>n. 0 \<le> in_flight (take n (trace (occur_all xs (occur x p)))) \<and>
            in_flight (take n (trace (occur_all xs (occur x p)))) \<le>
              int (length (threads (occur x p)))"
    using Cons.IH [of "occur x p"] by blast
  then show ?case by (simp add: occur_threads_length)
qed

lemma asked_Cons: "asked (x # xs) = asked [x] @ asked xs"
  by (cases x) simp_all

lemma occur_fifo:
  "begun (trace (occur x p)) @ update_queue (app (occur x p)) =
     begun (trace p) @ update_queue (app p) @ asked [x]"
proof (cases x)
  case (User query)
  then show ?thesis by (simp add: update_weather_eq)
next
  case (Dequeue i)
  show ?thesis
  proof (cases "i < length (threads p) \<and> threads p ! i = Waiting \<and> update_queue (app p) \<noteq> []")
    case False
    then have "occur (Dequeue i) p = p" using occur_Dequeue_idle [of i p] by blast
    with Dequeue show ?thesis by simp
  next
    case True
    then obtain city rest where q: "update_queue (app p) = city # rest"
      by (cases "update_queue (app p)") auto
    from True have i: "i < length (threads p)" and w: "threads p ! i = Waiting" by simp_all
    show ?thesis
      using Dequeue q
      by (simp only: occur_Dequeue_take [OF i w q])
        (simp add: begun_append enter_fetch_frame)
  qed
next
  case (Return i w)
  show ?thesis
  proof (cases "i < length (threads p) \<and> is_InFetch (threads p ! i)")
    case False
    then have "occur (Return i w) p = p" using occur_Return_idle [of i p w] by blast
    with Return show ?thesis by simp
  next
    case True
    then obtain city where f: "threads p ! i = InFetch city" by (cases "threads p ! i") auto
    from True have i: "i < length (threads p)" by simp
    show ?thesis
      using Return
      by (simp only: occur_Return_done [OF i f])
        (simp add: begun_append leave_fetch_frame)
  qed
qed

lemma occur_all_fifo:
  "begun (trace (occur_all xs p)) @ update_queue (app (occur_all xs p)) =
     begun (trace p) @ update_queue (app p) @ asked xs"
proof (induction xs arbitrary: p)
  case Nil
  then show ?case by simp
next
  case (Cons x xs)
  have "begun (trace (occur_all (x # xs) p)) @ update_queue (app (occur_all (x # xs) p)) =
      begun (trace (occur x p)) @ update_queue (app (occur x p)) @ asked xs"
    using Cons.IH [of "occur x p"] by simp
  also have "\<dots> = (begun (trace p) @ update_queue (app p) @ asked [x]) @ asked xs"
    using occur_fifo [of x p] by (metis append.assoc)
  finally show ?case using asked_Cons [of x xs] by simp
qed

lemma run_served:
  "fetch_log (snd (run acts (None, s))) =
     fetch_log s @ bracket (take (served acts (length (update_queue s)))
                              (update_queue s @ puts acts)) \<and>
   update_queue (snd (run acts (None, s))) =
     drop (served acts (length (update_queue s))) (update_queue s @ puts acts)"
proof (induction acts arbitrary: s)
  case Nil
  then show ?case by simp
next
  case (Cons a acts)
  show ?case
  proof (cases a)
    case (Search query)
    let ?s1 = "update_weather (s\<lparr>city_var := query\<rparr>)"
    have r: "run (a # acts) (None, s) = run acts (None, ?s1)" using Search by simp
    show ?thesis
      unfolding r using Cons.IH [of ?s1] Search by (simp add: update_weather_eq)
  next
    case (Work w)
    show ?thesis
    proof (cases "update_queue s")
      case Nil
      have r: "run (a # acts) (None, s) = run acts (None, s)" using Work Nil by simp
      show ?thesis
        unfolding r using Cons.IH [of s] Work Nil by simp
    next
      case (Cons city rest)
      let ?s1 = "snd (update_worker_iter w city (s\<lparr>update_queue := rest\<rparr>))"
      have r: "run (a # acts) (None, s) = run acts (None, ?s1)"
        using Work by (simp only: run.simps step_Work_Cons [OF Cons])
      have q1: "update_queue ?s1 = rest" by (simp add: update_worker_iter_queue)
      have f1: "fetch_log ?s1 = fetch_log s @ [FetchBegin city, FetchEnd city]"
        by (simp add: update_worker_iter_fetch_log)
      show ?thesis
        unfolding r using Cons.IH [of ?s1] Work Cons q1 f1 by simp
    qed
  qed
qed

lemma one_pass_is_two_occurrences:
  assumes "update_queue s = c # q"
  shows "app (occur_all [Dequeue 0, Return 0 w] (started s)) = snd (step (Work w) (None, s))"
proof -
  let ?p = "started s"
  have i: "0 < length (threads ?p)" and t: "threads ?p ! 0 = Waiting"
    and u: "update_queue (app ?p) = c # q"
    using assms by (simp_all add: started_def)
  let ?p1 = "occur (Dequeue 0) ?p"
  have p1: "?p1 = ?p\<lparr>threads := (threads ?p)[0 := InFetch c], trace := trace ?p @ [FetchBegin c],
       app := snd (enter_fetch c ((app ?p)\<lparr>update_queue := q\<rparr>))\<rparr>"
    by (rule occur_Dequeue_take [OF i t u])
  have i1: "0 < length (threads ?p1)" and t1: "threads ?p1 ! 0 = InFetch c"
    unfolding p1 by (simp_all add: started_def)
  have "app (occur (Return 0 w) ?p1) = snd (leave_fetch w c (app ?p1))"
    by (simp only: occur_Return_done [OF i1 t1]) simp
  also have "\<dots> = snd (update_worker_iter w c (s\<lparr>update_queue := q\<rparr>))"
    unfolding p1 by (simp add: pass_in_two_halves started_def)
  finally have a: "app (occur (Return 0 w) ?p1) =
      snd (update_worker_iter w c (s\<lparr>update_queue := q\<rparr>))" .
  have b: "occur_all [Dequeue 0, Return 0 w] (started s) = occur (Return 0 w) ?p1"
    by (simp only: occur_all.simps)
  have d: "snd (step (Work w) (None, s)) = snd (update_worker_iter w c (s\<lparr>update_queue := q\<rparr>))"
    by (simp only: step_Work_Cons [OF assms] snd_conv)
  show ?thesis
    by (simp only: a b d)
qed

lemma read_plain_chars:
  "\<not> list_ex special f \<Longrightarrow>
   read_from Plain acc row (f @ rest) = read_from Plain (acc @ f) row rest"
  by (induction f arbitrary: acc) simp_all

lemma read_quoted_chars:
  "read_from Quoted acc row (double_quotes f @ CHR 0x22 # rest) =
     read_from AfterQuote (acc @ f) row rest"
  by (induction f arbitrary: acc) simp_all

lemma read_field_comma:
  "read_from Plain [] row (write_field f @ CHR '','' # rest) = read_from Plain [] (row @ [f]) rest"
proof (cases "list_ex special f")
  case True
  then show ?thesis by (simp add: write_field_def read_quoted_chars)
next
  case False
  then show ?thesis by (simp add: write_field_def read_plain_chars)
qed

lemma read_field_newline:
  "read_from Plain [] row (write_field f @ CHR 0x0A # rest) =
     (row @ [f]) # read_from Plain [] [] rest"
proof (cases "list_ex special f")
  case True
  then show ?thesis by (simp add: write_field_def read_quoted_chars)
next
  case False
  then show ?thesis by (simp add: write_field_def read_plain_chars)
qed

lemma read_joined_fields:
  "fs \<noteq> [] \<Longrightarrow>
   read_from Plain [] row (join_fields (map write_field fs) @ CHR 0x0A # rest) =
     (row @ fs) # read_from Plain [] [] rest"
proof (induction fs arbitrary: row rule: join_fields.induct)
  case 1
  then show ?case by simp
next
  case (2 f)
  then show ?case by (simp add: read_field_newline)
next
  case (3 f g fs)
  have "read_from Plain [] row (join_fields (map write_field (f # g # fs)) @ CHR 0x0A # rest) =
      read_from Plain [] (row @ [f]) (join_fields (map write_field (g # fs)) @ CHR 0x0A # rest)"
    by (simp add: read_field_comma)
  also have "\<dots> = ((row @ [f]) @ g # fs) # read_from Plain [] [] rest"
    using "3.IH" [of "row @ [f]"] by simp
  finally show ?case by simp
qed

lemma read_written_row:
  "fs \<noteq> [] \<Longrightarrow> read_from Plain [] [] (write_row fs @ rest) = fs # read_from Plain [] [] rest"
proof (cases "fs = [[]]")
  case True
  then show ?thesis by (simp add: write_row_def)
next
  case False
  assume "fs \<noteq> []"
  from read_joined_fields [OF this, of "[]" rest] False show ?thesis
    by (simp add: write_row_def)
qed

lemma read_written_rows:
  "\<forall>fs \<in> set rows. fs \<noteq> [] \<Longrightarrow> read_csv (concat (map write_row rows)) = rows"
  unfolding read_csv_def
  by (induction rows) (simp_all add: read_written_row)

lemma read_csv_text:
  "\<forall>l \<in> set ls. line_texts str l \<noteq> [] \<Longrightarrow> read_csv (csv_text str ls) = map (line_texts str) ls"
  using read_written_rows [of "map (line_texts str) ls"]
  by (simp add: csv_text_def comp_def)

lemma history_row_texts:
  "line_texts str (Row (history_row w city weather)) =
     [now w, city, cell_text str (temperature weather), cell_text str (condition weather),
      cell_text str (humidity weather), cell_text str (wind_speed weather),
      cell_text str (pressure weather)]"
  by (simp add: history_row_def)

lemma read_after_save_all:
  assumes "history_file s = None" and "rs \<noteq> []"
    and "\<forall>r \<in> set rs. to_csv_raises (fst r) = None"
  shows "read_csv (history_text str (save_all rs s)) =
     history_columns #
     map (\<lambda>r. map (cell_text str) (history_row (fst r) (fst (snd r)) (snd (snd r)))) rs"
proof -
  let ?ls = "Header history_columns #
             map (\<lambda>r. Row (history_row (fst r) (fst (snd r)) (snd (snd r)))) rs"
  have f: "history_file (save_all rs s) = Some ?ls"
    by (rule save_all_new [OF assms])
  have n: "\<forall>l \<in> set ?ls. line_texts str l \<noteq> []"
    by (auto simp add: history_columns_def history_row_def)
  show ?thesis
    using read_csv_text [OF n] by (simp add: history_text_def f comp_def)
qed

lemma read_after_save:
  assumes "to_csv_raises w = None" and "history_file s = Some ls"
    and "\<forall>l \<in> set ls. line_texts str l \<noteq> []"
  shows "read_csv (history_text str (snd (save_weather_data w city weather s))) =
     read_csv (history_text str s) @
     [[now w, city, cell_text str (temperature weather), cell_text str (condition weather),
       cell_text str (humidity weather), cell_text str (wind_speed weather),
       cell_text str (pressure weather)]]"
proof -
  have f: "history_file (snd (save_weather_data w city weather s)) =
      Some (ls @ [Row (history_row w city weather)])"
    using assms(2) by (simp add: save_weather_data_history [OF assms(1)])
  have n: "\<forall>l \<in> set (ls @ [Row (history_row w city weather)]). line_texts str l \<noteq> []"
    using assms(3) by (auto simp add: history_row_def)
  show ?thesis
    using read_csv_text [OF n] read_csv_text [OF assms(3)]
    by (simp add: history_text_def f assms(2) history_row_def)
qed

section \<open>The claims\<close>

text \<open>
  C10. A search enqueues the stripped text exactly when the text does not consist of
  whitespace only, that is when the stripped text is not empty; otherwise the queue is
  left as it was. The search itself fetches nothing, and after a blank search on an empty
  queue the worker stays blocked: no cycle starts.
\<close>

theorem search_enqueues_iff_not_blank:
  "update_queue (snd (step (Search query) (t, s))) =
     (if list_all isspace query then update_queue s else update_queue s @ [strip query]) \<and>
   list_all isspace query = (strip query = []) \<and>
   fst (step (Search query) (t, s)) = t \<and>
   fetch_log (snd (step (Search query) (t, s))) = fetch_log s \<and>
   (list_all isspace query \<and> update_queue s = [] \<longrightarrow>
      step (Work w) (step (Search query) (None, s)) = step (Search query) (None, s))"
  by (simp add: update_weather_eq strip_Nil_iff)

theorem search_enqueues_iff_not_blank_witness:
  "update_queue (snd (step (Search [CHR '' '', CHR 0x09]) (None, fresh))) = [] \<and>
   update_queue (snd (step (Search '' Paris  '') (None, fresh))) = [''Paris''] \<and>
   step (Work good_world) (step (Search [CHR '' '', CHR 0x09]) (None, fresh)) =
     step (Search [CHR '' '', CHR 0x09]) (None, fresh)"
proof -
  have a: "list_all isspace [CHR '' '', CHR 0x09]" by (simp add: isspace_def)
  have b: "\<not> list_all isspace '' Paris  ''" by (simp add: isspace_def)
  have c: "strip '' Paris  '' = ''Paris''" by (simp add: strip_def isspace_def)
  have d: "update_queue fresh = []" by (simp add: fresh_def new_dashboard_def)
  show ?thesis
    using a b c d
      search_enqueues_iff_not_blank [of "[CHR '' '', CHR 0x09]" None fresh good_world]
      search_enqueues_iff_not_blank [of "'' Paris  ''" None fresh good_world]
    by simp
qed

text \<open>
  C4, amended. The record is built exactly when the payload holds every documented field,
  each container on the way being an object; the record then carries the provider's
  values as they are, whatever their type. Otherwise the construction raises a KeyError or
  a TypeError and \<open>process_weather_data\<close> ends with the status "Failed to process weather
  data".
\<close>

theorem normalize_takes_values_as_they_are:
  "case spec_normalize data of
     Some r \<Rightarrow> make_weather data = Inr r
   | None \<Rightarrow>
       (\<exists>e. make_weather data = Inl e \<and>
            (exn_class_of e = KeyError \<or> exn_class_of e = TypeError)) \<and>
       status_var (snd (process_weather_data w city data s)) = ''Failed to process weather data''"
proof (cases "spec_normalize data")
  case None
  with make_weather_spec [of data] obtain v k where e: "make_weather data = Inl (key_error v k)"
    by auto
  have "status_var (snd (process_weather_data w city data s)) = ''Failed to process weather data''"
    by (simp only: process_weather_data_status process_outcome_failed [OF e])
  with e key_error_class [of v k] None show ?thesis by simp
next
  case (Some r)
  with make_weather_spec [of data] show ?thesis by simp
qed

text \<open>
  C4 as stated fails: a payload whose temperature is a string and whose humidity is null
  does not have the documented shape, and yet the record is built from it.
\<close>

theorem normalize_wrong_shape_counterexample:
  "\<not> well_shaped drifted_payload \<and>
   make_weather drifted_payload =
     Inr \<lparr>temperature = PStr ''warm'', condition = PStr ''Cloudy'', humidity = PNone,
          wind_speed = PFloat ''10.0'', pressure = PFloat ''1012.0'',
          feels_like = PFloat ''14.2'', icon_url = [Lit ''http:'', Val (PStr ''//cdn/119.png'')]\<rparr>"
proof -
  have s: "spec_normalize drifted_payload =
     Some \<lparr>temperature = PStr ''warm'', condition = PStr ''Cloudy'', humidity = PNone,
          wind_speed = PFloat ''10.0'', pressure = PFloat ''1012.0'',
          feels_like = PFloat ''14.2'', icon_url = [Lit ''http:'', Val (PStr ''//cdn/119.png'')]\<rparr>"
    by (simp add: spec_normalize_def drifted_payload_def field_def)
  have m: "make_weather drifted_payload =
     Inr \<lparr>temperature = PStr ''warm'', condition = PStr ''Cloudy'', humidity = PNone,
          wind_speed = PFloat ''10.0'', pressure = PFloat ''1012.0'',
          feels_like = PFloat ''14.2'', icon_url = [Lit ''http:'', Val (PStr ''//cdn/119.png'')]\<rparr>"
    by (simp add: make_weather_def drifted_payload_def ebind_def)
  show ?thesis using s m by (simp add: well_shaped_def)
qed

theorem normalize_takes_values_as_they_are_witness:
  "make_weather (PDict [(''current'', london_current), (''forecast'', london_forecast)]) =
     Inr \<lparr>temperature = PFloat ''15.0'', condition = PStr ''Cloudy'', humidity = PInt 80,
          wind_speed = PFloat ''10.0'', pressure = PFloat ''1012.0'',
          feels_like = PFloat ''14.2'',
          icon_url = [Lit ''http:'', Val (PStr ''//cdn.weatherapi.com/weather/64x64/day/119.png'')]\<rparr> \<and>
   (\<exists>e. make_weather london_forecast = Inl e \<and>
        (exn_class_of e = KeyError \<or> exn_class_of e = TypeError)) \<and>
   status_var (snd (process_weather_data good_world ''London'' london_forecast fresh)) =
     ''Failed to process weather data''"
proof -
  have a: "spec_normalize (PDict [(''current'', london_current), (''forecast'', london_forecast)]) =
     Some \<lparr>temperature = PFloat ''15.0'', condition = PStr ''Cloudy'', humidity = PInt 80,
          wind_speed = PFloat ''10.0'', pressure = PFloat ''1012.0'',
          feels_like = PFloat ''14.2'',
          icon_url = [Lit ''http:'', Val (PStr ''//cdn.weatherapi.com/weather/64x64/day/119.png'')]\<rparr>"
    by (simp add: spec_normalize_def london_current_def field_def)
  have b: "spec_normalize london_forecast = None"
    by (simp add: spec_normalize_def london_forecast_def field_def)
  show ?thesis
    using normalize_takes_values_as_they_are
        [of "PDict [(''current'', london_current), (''forecast'', london_forecast)]"]
      normalize_takes_values_as_they_are [of london_forecast good_world "''London''" fresh]
    unfolding a b by simp
qed

text \<open>
  C8. The queue does not deduplicate: searching twice for the same city before the worker
  runs, and then letting the worker make two passes, gives two fetches of that city, one
  after the other, and four status texts: for each pass the announcement of the fetch and
  exactly one outcome.
\<close>

theorem same_city_twice_is_fetched_twice:
  assumes "strip query \<noteq> []" and "update_queue s = []"
  shows "\<exists>o1 o2. o1 \<in> outcomes (strip query) \<and> o2 \<in> outcomes (strip query) \<and>
     run [Search query, Search query, Work w1, Work w2] (None, s) =
       (None, snd (run [Search query, Search query, Work w1, Work w2] (None, s))) \<and>
     update_queue (snd (run [Search query, Search query, Work w1, Work w2] (None, s))) = [] \<and>
     fetch_log (snd (run [Search query, Search query, Work w1, Work w2] (None, s))) =
       fetch_log s @ bracket [strip query, strip query] \<and>
     status_log (snd (run [Search query, Search query, Work w1, Work w2] (None, s))) =
       status_log s @ [fetching (strip query), o1, fetching (strip query), o2]"
proof -
  let ?c = "strip query"
  let ?s2 = "update_weather ((update_weather (s\<lparr>city_var := query\<rparr>))\<lparr>city_var := query\<rparr>)"
  let ?a = "?s2\<lparr>update_queue := [?c]\<rparr>"
  let ?s3 = "snd (update_worker_iter w1 ?c ?a)"
  let ?b = "?s3\<lparr>update_queue := []\<rparr>"
  let ?s4 = "snd (update_worker_iter w2 ?c ?b)"
  have q2: "update_queue ?s2 = [?c, ?c]"
    using assms by (simp add: update_weather_eq)
  have u2: "unfinished_tasks ?s2 = unfinished_tasks s + 2"
    using assms by (simp add: update_weather_eq)
  have l2: "fetch_log ?s2 = fetch_log s" "status_log ?s2 = status_log s"
    using assms by (simp_all add: update_weather_eq)
  have ua: "0 < unfinished_tasks ?a" using u2 by simp
  have q3: "update_queue ?s3 = [?c]" by (simp add: update_worker_iter_queue)
  have ub: "0 < unfinished_tasks ?b"
    using update_worker_iter_status(3) [OF ua, of w1 ?c] u2 by simp
  have r: "run [Search query, Search query, Work w1, Work w2] (None, s) = (None, ?s4)"
    by (simp only: run.simps step.simps(1) step_Work_Cons [OF q2] step_Work_Cons [OF q3])
  have f: "fetch_log ?s4 = fetch_log s @ bracket [?c, ?c]"
    by (simp add: update_worker_iter_fetch_log l2)
  have st: "status_log ?s4 =
      status_log s @ [fetching ?c, cycle_outcome w1 ?c ?a, fetching ?c, cycle_outcome w2 ?c ?b]"
    by (simp add: update_worker_iter_status(1) [OF ub] update_worker_iter_status(1) [OF ua] l2)
  have qe: "update_queue ?s4 = []" by (simp add: update_worker_iter_queue)
  show ?thesis
    unfolding r using f st qe cycle_outcome_in [of w1 ?c ?a] cycle_outcome_in [of w2 ?c ?b]
    by (intro exI [of _ "cycle_outcome w1 ?c ?a"] exI [of _ "cycle_outcome w2 ?c ?b"]) simp
qed

theorem same_city_twice_is_fetched_twice_witness:
  "strip '' Paris'' \<noteq> [] \<and> update_queue fresh = [] \<and>
   (\<exists>o1 o2. o1 \<in> outcomes (strip '' Paris'') \<and> o2 \<in> outcomes (strip '' Paris'') \<and>
     run [Search '' Paris'', Search '' Paris'', Work good_world, Work down_world] (None, fresh) =
       (None, snd (run [Search '' Paris'', Search '' Paris'', Work good_world, Work down_world]
                     (None, fresh))) \<and>
     update_queue (snd (run [Search '' Paris'', Search '' Paris'', Work good_world, Work down_world]
                          (None, fresh))) = [] \<and>
     fetch_log (snd (run [Search '' Paris'', Search '' Paris'', Work good_world, Work down_world]
                       (None, fresh))) =
       fetch_log fresh @ bracket [strip '' Paris'', strip '' Paris''] \<and>
     status_log (snd (run [Search '' Paris'', Search '' Paris'', Work good_world, Work down_world]
                        (None, fresh))) =
       status_log fresh @ [fetching (strip '' Paris''), o1, fetching (strip '' Paris''), o2])"
proof -
  have a: "strip '' Paris'' \<noteq> []" by (simp add: strip_def isspace_def)
  have b: "update_queue fresh = []" by (simp add: fresh_def new_dashboard_def)
  from a b same_city_twice_is_fetched_twice [OF a b, of good_world down_world]
  show ?thesis by blast
qed

text \<open>
  C5, amended. When the payload is fetched and normalized and the append to the history
  fails, the pass updates the five displayed fields from the record and ends with the
  status "Weather updated for <city>", after the announcement of the fetch: the status
  sink is told nothing of the failure. The failure is written to the log only, and the
  history file is left as it was.
\<close>

theorem persistence_failure_is_logged_not_reported:
  assumes "call_result w (current_request s city) = Some c"
    and "call_result w (forecast_request s city) = Some f"
    and "make_weather (PDict [(''current'', c), (''forecast'', f)]) = Inr weather"
    and "to_csv_raises w = Some e"
    and "0 < unfinished_tasks s"
  shows "status_log (snd (update_worker_iter w city s)) =
           status_log s @ [fetching city, ''Weather updated for '' @ city] \<and>
         status_var (snd (update_worker_iter w city s)) = ''Weather updated for '' @ city \<and>
         temp_var (snd (update_worker_iter w city s)) = [Val (temperature weather), Lit degrees_C] \<and>
         condition_var (snd (update_worker_iter w city s)) = [Val (condition weather)] \<and>
         humidity_var (snd (update_worker_iter w city s)) = [Val (humidity weather), Lit ''%''] \<and>
         wind_var (snd (update_worker_iter w city s)) = [Val (wind_speed weather), Lit '' km/h''] \<and>
         pressure_var (snd (update_worker_iter w city s)) = [Val (pressure weather), Lit '' mb''] \<and>
         history_file (snd (update_worker_iter w city s)) = history_file s \<and>
         last (logged (snd (update_worker_iter w city s))) =
           ''Failed to save weather data: '' @ exn_str e"
  using update_worker_iter_status(1,2) [OF assms(5), of w city]
    update_worker_iter_save_failed [OF assms]
    update_worker_iter_display [OF assms(1,2,3)]
  by simp

theorem persistence_failure_is_logged_not_reported_witness:
  "call_result csv_fail_world (current_request (queue_put ''London'' fresh) ''London'') =
     Some london_current \<and>
   to_csv_raises csv_fail_world = Some (Exn OSError ''No space left on device'') \<and>
   0 < unfinished_tasks (queue_put ''London'' fresh) \<and>
   status_var (snd (update_worker_iter csv_fail_world ''London'' (queue_put ''London'' fresh))) =
     ''Weather updated for London'' \<and>
   temp_var (snd (update_worker_iter csv_fail_world ''London'' (queue_put ''London'' fresh))) =
     [Val (PFloat ''15.0''), Lit degrees_C] \<and>
   history_file (snd (update_worker_iter csv_fail_world ''London'' (queue_put ''London'' fresh))) =
     None \<and>
   last (logged (snd (update_worker_iter csv_fail_world ''London'' (queue_put ''London'' fresh)))) =
     ''Failed to save weather data: No space left on device''"
proof -
  have a: "to_csv_raises csv_fail_world = Some (Exn OSError ''No space left on device'')"
    by (simp add: csv_fail_world_def)
  have b: "0 < unfinished_tasks (queue_put ''London'' fresh)"
    by (simp add: queue_put_def)
  have c: "history_file (queue_put ''London'' fresh) = None"
    by (simp add: queue_put_def fresh_def new_dashboard_def)
  show ?thesis
    using persistence_failure_is_logged_not_reported
      [OF call_result_csv_fail make_weather_london a b] a b c
    by (simp add: call_result_csv_fail london_weather_def)
qed

text \<open>
  C5 as stated fails: with the disk full, a search for Paris and one pass of the worker
  give the status sink the announcement of the fetch and "Weather updated for Paris",
  nothing else; the failure is in the log only.
\<close>

theorem persistence_failure_counterexample:
  "to_csv_raises csv_fail_world = Some (Exn OSError ''No space left on device'') \<and>
   status_log (snd (update_worker_iter csv_fail_world ''Paris'' (queue_put ''Paris'' fresh))) =
     [''Fetching weather data for Paris...'', ''Weather updated for Paris''] \<and>
   last (logged (snd (update_worker_iter csv_fail_world ''Paris'' (queue_put ''Paris'' fresh)))) =
     ''Failed to save weather data: No space left on device''"
proof -
  have a: "to_csv_raises csv_fail_world = Some (Exn OSError ''No space left on device'')"
    by (simp add: csv_fail_world_def)
  have b: "0 < unfinished_tasks (queue_put ''Paris'' fresh)"
    by (simp add: queue_put_def)
  have c: "status_log (queue_put ''Paris'' fresh) = []"
    by (simp add: queue_put_def fresh_def new_dashboard_def)
  show ?thesis
    using update_worker_iter_status(1) [OF b, of csv_fail_world "''Paris''"]
      update_worker_iter_save_failed(2,3) [OF call_result_csv_fail make_weather_london a b]
      a c
    by (simp add: fetching_def)
qed

text \<open>
  C6, amended. In Weatherdashboard.py a pass of the worker whose fetch fails writes nothing
  to the history file and leaves the displayed temperature, condition, humidity, wind,
  pressure and icon as they were. In pro.py an update whose request is answered with a
  status other than 200 writes nothing to the history file either, but it replaces the
  temperature by "Error fetching data" and clears the condition, the humidity and the icon.
\<close>

theorem failed_fetch_keeps_history_and_dashboard_display:
  "(call_result w (current_request s city) = None \<or>
    call_result w (forecast_request s city) = None \<longrightarrow>
      history_file (snd (update_worker_iter w city s)) = history_file s \<and>
      temp_var (snd (update_worker_iter w city s)) = temp_var s \<and>
      condition_var (snd (update_worker_iter w city s)) = condition_var s \<and>
      humidity_var (snd (update_worker_iter w city s)) = humidity_var s \<and>
      wind_var (snd (update_worker_iter w city s)) = wind_var s \<and>
      pressure_var (snd (update_worker_iter w city s)) = pressure_var s \<and>
      icon_label (snd (update_worker_iter w city s)) = icon_label s) \<and>
   (http_get w (pro_request (city_entry p)) = Inr r \<and> status_code r \<noteq> 200 \<longrightarrow>
      weather_history (snd (pro_update_weather w p)) = weather_history p \<and>
      temp_label (snd (pro_update_weather w p)) = [Lit ''Error fetching data''] \<and>
      condition_label (snd (pro_update_weather w p)) = [] \<and>
      humidity_label (snd (pro_update_weather w p)) = [] \<and>
      pro_icon_label (snd (pro_update_weather w p)) = None)"
proof (intro conjI impI)
  assume "http_get w (pro_request (city_entry p)) = Inr r \<and> status_code r \<noteq> 200"
  then have e: "pro_update_weather w p =
     (Inr (), p\<lparr>pro_http_log := pro_http_log p @ [pro_request (city_entry p)],
               temp_label := [Lit ''Error fetching data''],
               condition_label := [], humidity_label := [], pro_icon_label := None\<rparr>)"
    using pro_update_weather_not_200 by blast
  show "weather_history (snd (pro_update_weather w p)) = weather_history p"
    and "temp_label (snd (pro_update_weather w p)) = [Lit ''Error fetching data'']"
    and "condition_label (snd (pro_update_weather w p)) = []"
    and "humidity_label (snd (pro_update_weather w p)) = []"
    and "pro_icon_label (snd (pro_update_weather w p)) = None"
    by (simp_all add: e)
qed (simp_all add: update_worker_iter_fetch_failed_fields)

theorem failed_fetch_keeps_history_and_dashboard_display_witness:
  "call_result down_world (current_request fresh ''Paris'') = None \<and>
   history_file (snd (update_worker_iter down_world ''Paris'' fresh)) = history_file fresh \<and>
   temp_var (snd (update_worker_iter down_world ''Paris'' fresh)) = temp_var fresh \<and>
   icon_label (snd (update_worker_iter down_world ''Paris'' fresh)) = icon_label fresh \<and>
   status_code \<lparr>status_code = 404, json = Inl (Exn ValueError []), picture = Inr []\<rparr> \<noteq> 200 \<and>
   weather_history (snd (pro_update_weather
      (good_world\<lparr>http_get := (\<lambda>rq. Inr \<lparr>status_code = 404, json = Inl (Exn ValueError []),
                                         picture = Inr []\<rparr>)\<rparr>) pro_shown)) =
     weather_history pro_shown"
  using failed_fetch_keeps_history_and_dashboard_display
      [where w = down_world and s = fresh and city = "''Paris''"]
    failed_fetch_keeps_history_and_dashboard_display
      [where w = "good_world\<lparr>http_get := (\<lambda>rq. Inr \<lparr>status_code = 404,
                     json = Inl (Exn ValueError []), picture = Inr []\<rparr>)\<rparr>"
         and p = pro_shown
         and r = "\<lparr>status_code = 404, json = Inl (Exn ValueError []), picture = Inr []\<rparr>"]
  by (simp add: call_result_down)

text \<open>
  C6 as stated fails in pro.py: the window shows London's weather; an update for a city
  the provider answers 404 for replaces the temperature by "Error fetching data" and
  clears the condition, the humidity and the icon.
\<close>

theorem failed_fetch_clears_display_counterexample:
  "temp_label pro_shown = [Val (PFloat ''15.0''), Lit degrees_C] \<and>
   temp_label (snd (pro_update_weather missing_world pro_shown)) = [Lit ''Error fetching data''] \<and>
   condition_label (snd (pro_update_weather missing_world pro_shown)) = [] \<and>
   humidity_label (snd (pro_update_weather missing_world pro_shown)) = [] \<and>
   pro_icon_label pro_shown = Some ''PNG'' \<and>
   pro_icon_label (snd (pro_update_weather missing_world pro_shown)) = None"
proof -
  have a: "http_get missing_world (pro_request (city_entry pro_shown)) =
     Inr \<lparr>status_code = 404,
          json = Inr (PDict [(''error'', PStr ''No matching location found.'')]),
          picture = Inl (Exn OSError ''cannot identify image file'')\<rparr>"
    by (simp add: missing_world_def)
  have b: "status_code \<lparr>status_code = 404,
          json = Inr (PDict [(''error'', PStr ''No matching location found.'')]),
          picture = Inl (Exn OSError ''cannot identify image file'')\<rparr> \<noteq> 200"
    by simp
  show ?thesis
    by (simp add: pro_update_weather_not_200 [OF a b]) (simp add: pro_shown_def)
qed

text \<open>
  C9, amended. The worker does dereference the icon: a pass that fetches and normalizes a
  payload issues three requests, for the current conditions, for the forecast and, from
  \<open>update_ui\<close>, for the icon URL of the record. A pass whose fetch fails issues only the
  requests of \<open>get_weather\<close>; \<open>get_weather\<close> issues no request but its two, and
  \<open>save_weather_data\<close> issues none.
\<close>

theorem icon_is_requested_by_the_worker:
  "(call_result w (current_request s city) = Some c \<and>
    call_result w (forecast_request s city) = Some f \<and>
    make_weather (PDict [(''current'', c), (''forecast'', f)]) = Inr weather \<longrightarrow>
      http_log (snd (update_worker_iter w city s)) =
        http_log s @ [current_request s city, forecast_request s city,
                      icon_request (icon_url weather)]) \<and>
   (call_result w (current_request s city) = None \<or>
    call_result w (forecast_request s city) = None \<longrightarrow>
      http_log (snd (update_worker_iter w city s)) =
        http_log s @ get_weather_requests w (current_request s city) (forecast_request s city)) \<and>
   set (http_log (snd (get_weather w city s))) \<subseteq>
     set (http_log s) \<union> {current_request s city, forecast_request s city} \<and>
   http_log (snd (save_weather_data w city weather s)) = http_log s"
proof (intro conjI impI)
  assume a: "call_result w (current_request s city) = Some c \<and>
    call_result w (forecast_request s city) = Some f \<and>
    make_weather (PDict [(''current'', c), (''forecast'', f)]) = Inr weather"
  then have "call_result w (current_request s city) = Some c"
    and "call_result w (forecast_request s city) = Some f" by simp_all
  from update_worker_iter_http_ok [OF this] a
  show "http_log (snd (update_worker_iter w city s)) =
        http_log s @ [current_request s city, forecast_request s city,
                      icon_request (icon_url weather)]"
    by simp
next
  assume "call_result w (current_request s city) = None \<or>
    call_result w (forecast_request s city) = None"
  then show "http_log (snd (update_worker_iter w city s)) =
        http_log s @ get_weather_requests w (current_request s city) (forecast_request s city)"
    by (rule update_worker_iter_fetch_failed_fields(8))
next
  show "set (http_log (snd (get_weather w city s))) \<subseteq>
     set (http_log s) \<union> {current_request s city, forecast_request s city}"
    by (rule get_weather_http_subset)
next
  show "http_log (snd (save_weather_data w city weather s)) = http_log s"
    by (rule save_weather_data_http)
qed

theorem icon_is_requested_by_the_worker_witness:
  "call_result good_world (current_request fresh ''London'') = Some london_current \<and>
   call_result good_world (forecast_request fresh ''London'') = Some london_forecast \<and>
   make_weather (PDict [(''current'', london_current), (''forecast'', london_forecast)]) =
     Inr london_weather \<and>
   http_log (snd (update_worker_iter good_world ''London'' fresh)) =
     http_log fresh @ [current_request fresh ''London'', forecast_request fresh ''London'',
                       icon_request (icon_url london_weather)] \<and>
   call_result down_world (current_request fresh ''London'') = None \<and>
   http_log (snd (update_worker_iter down_world ''London'' fresh)) =
     http_log fresh @
       get_weather_requests down_world (current_request fresh ''London'')
         (forecast_request fresh ''London'')"
  using icon_is_requested_by_the_worker
      [where w = good_world and s = fresh and city = "''London''" and c = london_current
         and f = london_forecast and weather = london_weather]
    icon_is_requested_by_the_worker
      [where w = down_world and s = fresh and city = "''London''"]
  by (simp add: call_result_good call_result_down make_weather_london)

text \<open>
  C9 as stated fails: after a search for London and one pass of the worker in a world
  where everything works, the requests issued include the one for the icon URL.
\<close>

theorem icon_request_counterexample:
  "icon_request [Lit ''http:'', Val (PStr ''//cdn.weatherapi.com/weather/64x64/day/119.png'')]
     \<in> set (http_log (snd (run [Search ''London'', Work good_world] (None, fresh))))"
proof -
  let ?s = "update_weather (fresh\<lparr>city_var := ''London''\<rparr>)"
  have st: "strip ''London'' = ''London''" by (simp add: strip_def isspace_def)
  have q: "update_queue ?s = [''London'']"
    by (simp add: update_weather_eq st fresh_def new_dashboard_def)
  have r: "run [Search ''London'', Work good_world] (None, fresh) =
     (None, snd (update_worker_iter good_world ''London'' (?s\<lparr>update_queue := []\<rparr>)))"
    by (simp only: run.simps step.simps(1) step_Work_Cons [OF q])
  show ?thesis
    unfolding r
    by (simp add: update_worker_iter_http_ok [OF call_result_good] make_weather_london
        london_weather_def)
qed




text \<open>
  C2. The program starts one worker thread. Whatever the user and the worker do, in
  whatever order, the calls of \<open>get_weather\<close> begun and not ended are never more than
  one, at any moment; the cities whose fetch has begun, followed by the cities still
  queued, are the cities enqueued, in that order. The waiting worker takes the head of a
  non-empty queue and begins its fetch; while inside \<open>get_weather\<close> it takes nothing;
  when \<open>get_weather\<close> comes back it ends that fetch and waits again. Taking a city and
  finishing its pass without anything in between is the atomic pass \<open>Work\<close>, and over a
  schedule of atomic steps the fetches made are exactly the first cities enqueued, as
  many as there were passes on a non-empty queue.
\<close>

theorem fetches_in_enqueue_order_one_at_a_time:
  "(\<forall>n. 0 \<le> in_flight (take n (trace (occur_all xs (started s)))) \<and>
        in_flight (take n (trace (occur_all xs (started s)))) \<le> 1) \<and>
   begun (trace (occur_all xs (started s))) @ update_queue (app (occur_all xs (started s))) =
     update_queue s @ asked xs \<and>
   (threads p = [Waiting] \<and> update_queue (app p) = c # q \<longrightarrow>
      threads (occur (Dequeue 0) p) = [InFetch c] \<and>
      trace (occur (Dequeue 0) p) = trace p @ [FetchBegin c] \<and>
      update_queue (app (occur (Dequeue 0) p)) = q) \<and>
   (threads p = [InFetch c] \<longrightarrow>
      occur (Dequeue 0) p = p \<and>
      threads (occur (Return 0 w) p) = [Waiting] \<and>
      trace (occur (Return 0 w) p) = trace p @ [FetchEnd c] \<and>
      fetch_log (app (occur (Return 0 w) p)) = fetch_log (app p) @ [FetchBegin c, FetchEnd c] \<and>
      update_queue (app (occur (Return 0 w) p)) = update_queue (app p)) \<and>
   (update_queue s = c # q \<longrightarrow>
      app (occur_all [Dequeue 0, Return 0 w] (started s)) = snd (step (Work w) (None, s))) \<and>
   fetch_log (snd (run acts (None, s))) =
     fetch_log s @ bracket (take (served acts (length (update_queue s)))
                              (update_queue s @ puts acts)) \<and>
   update_queue (snd (run acts (None, s))) =
     drop (served acts (length (update_queue s))) (update_queue s @ puts acts)"
proof (intro conjI impI)
  have "in_flight (trace (started s)) = int (length (filter is_InFetch (threads (started s))))"
    and "\<forall>n. 0 \<le> in_flight (take n (trace (started s))) \<and>
             in_flight (take n (trace (started s))) \<le> int (length (threads (started s)))"
    by (simp_all add: started_def)
  from occur_all_in_flight [OF this, of xs]
  show "\<forall>n. 0 \<le> in_flight (take n (trace (occur_all xs (started s)))) \<and>
        in_flight (take n (trace (occur_all xs (started s)))) \<le> 1"
    by (simp add: started_def)
next
  show "begun (trace (occur_all xs (started s))) @ update_queue (app (occur_all xs (started s))) =
     update_queue s @ asked xs"
    using occur_all_fifo [of xs "started s"] by (simp add: started_def)
next
  assume a: "threads p = [Waiting] \<and> update_queue (app p) = c # q"
  then have i: "0 < length (threads p)" and t: "threads p ! 0 = Waiting"
    and u: "update_queue (app p) = c # q" by simp_all
  show "threads (occur (Dequeue 0) p) = [InFetch c]"
    and "trace (occur (Dequeue 0) p) = trace p @ [FetchBegin c]"
    and "update_queue (app (occur (Dequeue 0) p)) = q"
    using a by (simp_all only: occur_Dequeue_take [OF i t u]) (simp_all add: enter_fetch_frame)
next
  assume a: "threads p = [InFetch c]"
  then have i: "0 < length (threads p)" and t: "threads p ! 0 = InFetch c" by simp_all
  show "occur (Dequeue 0) p = p"
    using a by (intro occur_Dequeue_idle) simp
  show "threads (occur (Return 0 w) p) = [Waiting]"
    and "trace (occur (Return 0 w) p) = trace p @ [FetchEnd c]"
    and "fetch_log (app (occur (Return 0 w) p)) = fetch_log (app p) @ [FetchBegin c, FetchEnd c]"
    and "update_queue (app (occur (Return 0 w) p)) = update_queue (app p)"
    using a by (simp_all only: occur_Return_done [OF i t]) (simp_all add: leave_fetch_frame)
next
  assume "update_queue s = c # q"
  then show "app (occur_all [Dequeue 0, Return 0 w] (started s)) = snd (step (Work w) (None, s))"
    by (rule one_pass_is_two_occurrences)
next
  show "fetch_log (snd (run acts (None, s))) =
     fetch_log s @ bracket (take (served acts (length (update_queue s)))
                              (update_queue s @ puts acts))"
    and "update_queue (snd (run acts (None, s))) =
     drop (served acts (length (update_queue s))) (update_queue s @ puts acts)"
    using run_served [of acts s] by simp_all
qed

theorem fetches_in_enqueue_order_one_at_a_time_witness:
  "(\<forall>n. 0 \<le> in_flight (take n (trace (occur_all
            [User ''Oslo'', Dequeue 0, User '' Rome '', Return 0 good_world, Dequeue 0]
            (started fresh)))) \<and>
        in_flight (take n (trace (occur_all
            [User ''Oslo'', Dequeue 0, User '' Rome '', Return 0 good_world, Dequeue 0]
            (started fresh)))) \<le> 1) \<and>
   threads (started (queue_put ''Oslo'' fresh)) = [Waiting] \<and>
   update_queue (app (started (queue_put ''Oslo'' fresh))) = ''Oslo'' # [] \<and>
   threads (occur (Dequeue 0) (started (queue_put ''Oslo'' fresh))) = [InFetch ''Oslo''] \<and>
   trace (occur (Dequeue 0) (started (queue_put ''Oslo'' fresh))) = [FetchBegin ''Oslo''] \<and>
   update_queue (app (occur (Dequeue 0) (started (queue_put ''Oslo'' fresh)))) = [] \<and>
   occur (Dequeue 0) (occur (Dequeue 0) (started (queue_put ''Oslo'' fresh))) =
     occur (Dequeue 0) (started (queue_put ''Oslo'' fresh)) \<and>
   threads (occur (Return 0 good_world) (occur (Dequeue 0) (started (queue_put ''Oslo'' fresh)))) =
     [Waiting] \<and>
   trace (occur (Return 0 good_world) (occur (Dequeue 0) (started (queue_put ''Oslo'' fresh)))) =
     [FetchBegin ''Oslo'', FetchEnd ''Oslo''] \<and>
   app (occur_all [Dequeue 0, Return 0 good_world] (started (queue_put ''Oslo'' fresh))) =
     snd (step (Work good_world) (None, queue_put ''Oslo'' fresh))"
proof -
  let ?p = "started (queue_put ''Oslo'' fresh)"
  have h: "threads ?p = [Waiting] \<and> update_queue (app ?p) = ''Oslo'' # []"
    by (simp add: started_def queue_put_def fresh_def new_dashboard_def)
  have e: "trace ?p = []" by (simp add: started_def)
  have q: "update_queue (queue_put ''Oslo'' fresh) = ''Oslo'' # []"
    by (simp add: queue_put_def fresh_def new_dashboard_def)
  note a = fetches_in_enqueue_order_one_at_a_time
    [where xs = "[User ''Oslo'', Dequeue 0, User '' Rome '', Return 0 good_world, Dequeue 0]"
       and s = fresh]
  note b = fetches_in_enqueue_order_one_at_a_time
    [where p = ?p and s = "queue_put ''Oslo'' fresh" and c = "''Oslo''" and q = "[]"
       and w = good_world]
  from b h have t1: "threads (occur (Dequeue 0) ?p) = [InFetch ''Oslo'']"
    and r1: "trace (occur (Dequeue 0) ?p) = trace ?p @ [FetchBegin ''Oslo'']"
    and u1: "update_queue (app (occur (Dequeue 0) ?p)) = []"
    by blast+
  note d = fetches_in_enqueue_order_one_at_a_time
    [where p = "occur (Dequeue 0) ?p" and c = "''Oslo''" and w = good_world]
  from d t1 have "occur (Dequeue 0) (occur (Dequeue 0) ?p) = occur (Dequeue 0) ?p"
    and "threads (occur (Return 0 good_world) (occur (Dequeue 0) ?p)) = [Waiting]"
    and "trace (occur (Return 0 good_world) (occur (Dequeue 0) ?p)) =
           trace (occur (Dequeue 0) ?p) @ [FetchEnd ''Oslo'']"
    by blast+
  moreover from b q have
    "app (occur_all [Dequeue 0, Return 0 good_world] ?p) =
       snd (step (Work good_world) (None, queue_put ''Oslo'' fresh))"
    by blast
  moreover from a have
    "\<forall>n. 0 \<le> in_flight (take n (trace (occur_all
            [User ''Oslo'', Dequeue 0, User '' Rome '', Return 0 good_world, Dequeue 0]
            (started fresh)))) \<and>
        in_flight (take n (trace (occur_all
            [User ''Oslo'', Dequeue 0, User '' Rome '', Return 0 good_world, Dequeue 0]
            (started fresh)))) \<le> 1"
    by blast
  ultimately show ?thesis
    using h t1 r1 u1 e by (simp only: append_Nil append_Cons) simp
qed

text \<open>
  C7, amended. In Weatherdashboard.py a successful append adds one row at the end of the
  history file, holding the time of the append, the city and the record's temperature,
  condition, humidity, wind speed and pressure, in that order; it writes the header before
  the row exactly when the file does not exist yet. Reading the file back gives the values
  as they were written, whatever characters they hold: after any number of successful
  appends to a file that did not exist, the read gives the header once, first, and then
  one row per append with the texts of its values; after an append to an existing file the
  read gives what it gave before and the new row. In pro.py a successful append adds one
  row of four columns (city, temperature, condition, humidity) and never writes a header.
\<close>

theorem append_writes_one_row_header_on_creation:
  "(to_csv_raises w = None \<longrightarrow>
      history_file (snd (save_weather_data w city weather s)) =
        Some ((case history_file s of
                 None \<Rightarrow> [Header [''timestamp'', ''city'', ''temperature'', ''condition'',
                                   ''humidity'', ''wind_speed'', ''pressure'']]
               | Some ls \<Rightarrow> ls) @
              [Row [PDatetime (now w), PStr city, temperature weather, condition weather,
                    humidity weather, wind_speed weather, pressure weather]])) \<and>
   (history_file s = None \<and> rs \<noteq> [] \<and> (\<forall>r \<in> set rs. to_csv_raises (fst r) = None) \<longrightarrow>
      history_file (save_all rs s) =
        Some (Header history_columns #
              map (\<lambda>r. Row (history_row (fst r) (fst (snd r)) (snd (snd r)))) rs) \<and>
      read_csv (history_text str (save_all rs s)) =
        history_columns #
        map (\<lambda>r. map (cell_text str) (history_row (fst r) (fst (snd r)) (snd (snd r)))) rs) \<and>
   (to_csv_raises w = None \<and> history_file s = Some ls \<and>
    (\<forall>l \<in> set ls. line_texts str l \<noteq> []) \<longrightarrow>
      read_csv (history_text str (snd (save_weather_data w city weather s))) =
        read_csv (history_text str s) @
        [[now w, city, cell_text str (temperature weather), cell_text str (condition weather),
          cell_text str (humidity weather), cell_text str (wind_speed weather),
          cell_text str (pressure weather)]]) \<and>
   (to_csv_raises w = None \<longrightarrow>
      weather_history (snd (save_to_csv w city t c h p)) =
        Some ((case weather_history p of None \<Rightarrow> [] | Some ls \<Rightarrow> ls) @
              [Row [PStr city, t, c, h]]))"
proof (intro conjI impI)
  assume "to_csv_raises w = None"
  then show "history_file (snd (save_weather_data w city weather s)) =
        Some ((case history_file s of
                 None \<Rightarrow> [Header [''timestamp'', ''city'', ''temperature'', ''condition'',
                                   ''humidity'', ''wind_speed'', ''pressure'']]
               | Some ls \<Rightarrow> ls) @
              [Row [PDatetime (now w), PStr city, temperature weather, condition weather,
                    humidity weather, wind_speed weather, pressure weather]])"
    by (simp add: save_weather_data_history history_columns_def history_row_def
        split: option.splits)
next
  assume a: "history_file s = None \<and> rs \<noteq> [] \<and> (\<forall>r \<in> set rs. to_csv_raises (fst r) = None)"
  then show "history_file (save_all rs s) =
        Some (Header history_columns #
              map (\<lambda>r. Row (history_row (fst r) (fst (snd r)) (snd (snd r)))) rs)"
    using save_all_new by blast
  from a show "read_csv (history_text str (save_all rs s)) =
        history_columns #
        map (\<lambda>r. map (cell_text str) (history_row (fst r) (fst (snd r)) (snd (snd r)))) rs"
    using read_after_save_all by blast
next
  assume "to_csv_raises w = None \<and> history_file s = Some ls \<and>
    (\<forall>l \<in> set ls. line_texts str l \<noteq> [])"
  then show "read_csv (history_text str (snd (save_weather_data w city weather s))) =
        read_csv (history_text str s) @
        [[now w, city, cell_text str (temperature weather), cell_text str (condition weather),
          cell_text str (humidity weather), cell_text str (wind_speed weather),
          cell_text str (pressure weather)]]"
    using read_after_save by blast
next
  assume "to_csv_raises w = None"
  then show "weather_history (snd (save_to_csv w city t c h p)) =
        Some ((case weather_history p of None \<Rightarrow> [] | Some ls \<Rightarrow> ls) @
              [Row [PStr city, t, c, h]])"
    by (rule save_to_csv_history)
qed

theorem append_writes_one_row_header_on_creation_witness:
  "to_csv_raises good_world = None \<and> history_file fresh = None \<and>
   history_file (snd (save_weather_data good_world ''London'' london_weather fresh)) =
     Some [Header [''timestamp'', ''city'', ''temperature'', ''condition'', ''humidity'',
                   ''wind_speed'', ''pressure''],
           Row [PDatetime ''2024-11-04 12:00:00'', PStr ''London'', PFloat ''15.0'',
                PStr ''Cloudy'', PInt 80, PFloat ''10.0'', PFloat ''1012.0'']] \<and>
   read_csv (history_text (\<lambda>v. ''?'')
      (save_all [(good_world, ''London'', london_weather),
                 (good_world, ''Saint-Louis, Senegal'', stormy_weather)] fresh)) =
     [history_columns,
      map (cell_text (\<lambda>v. ''?'')) (history_row good_world ''London'' london_weather),
      map (cell_text (\<lambda>v. ''?''))
        (history_row good_world ''Saint-Louis, Senegal'' stormy_weather)] \<and>
   read_csv (history_text (\<lambda>v. ''?'')
      (snd (save_weather_data good_world ''Paris'' stormy_weather
              (fresh\<lparr>history_file := Some [Header history_columns]\<rparr>)))) =
     read_csv (history_text (\<lambda>v. ''?'') (fresh\<lparr>history_file := Some [Header history_columns]\<rparr>)) @
     [[now good_world, ''Paris'', cell_text (\<lambda>v. ''?'') (temperature stormy_weather),
       cell_text (\<lambda>v. ''?'') (condition stormy_weather),
       cell_text (\<lambda>v. ''?'') (humidity stormy_weather),
       cell_text (\<lambda>v. ''?'') (wind_speed stormy_weather),
       cell_text (\<lambda>v. ''?'') (pressure stormy_weather)]]"
proof -
  have a: "to_csv_raises good_world = None" by (simp add: good_world_def)
  have b: "history_file fresh = None" by (simp add: fresh_def new_dashboard_def)
  have c: "now good_world = ''2024-11-04 12:00:00''" by (simp add: good_world_def)
  have d: "history_file (fresh\<lparr>history_file := Some [Header history_columns]\<rparr>) =
      Some [Header history_columns]" by simp
  have e: "\<forall>l \<in> set [Header history_columns]. line_texts (\<lambda>v. ''?'') l \<noteq> []"
    by (simp add: history_columns_def)
  note t1 = append_writes_one_row_header_on_creation
    [where w = good_world and s = fresh and city = "''London''" and weather = london_weather
       and str = "\<lambda>v. ''?''"
       and rs = "[(good_world, ''London'', london_weather),
                  (good_world, ''Saint-Louis, Senegal'', stormy_weather)]"]
  note t2 = append_writes_one_row_header_on_creation
    [where w = good_world and s = "fresh\<lparr>history_file := Some [Header history_columns]\<rparr>"
       and city = "''Paris''" and weather = stormy_weather and str = "\<lambda>v. ''?''"
       and ls = "[Header history_columns]"]
  from t2 a d e have r2:
    "read_csv (history_text (\<lambda>v. ''?'')
      (snd (save_weather_data good_world ''Paris'' stormy_weather
              (fresh\<lparr>history_file := Some [Header history_columns]\<rparr>)))) =
     read_csv (history_text (\<lambda>v. ''?'') (fresh\<lparr>history_file := Some [Header history_columns]\<rparr>)) @
     [[now good_world, ''Paris'', cell_text (\<lambda>v. ''?'') (temperature stormy_weather),
       cell_text (\<lambda>v. ''?'') (condition stormy_weather),
       cell_text (\<lambda>v. ''?'') (humidity stormy_weather),
       cell_text (\<lambda>v. ''?'') (wind_speed stormy_weather),
       cell_text (\<lambda>v. ''?'') (pressure stormy_weather)]]"
    by blast
  show ?thesis
    using a b t1 r2 by (simp add: c london_weather_def)
qed

text \<open>
  C7 as stated fails in pro.py: the first append creates the file with the row alone, no
  header, and the row has four columns, without timestamp, wind or pressure.
\<close>

theorem append_without_header_counterexample:
  "weather_history pro_shown = None \<and>
   weather_history (snd (save_to_csv good_world ''London'' (PFloat ''15.0'') (PStr ''Cloudy'')
                           (PInt 80) pro_shown)) =
     Some [Row [PStr ''London'', PFloat ''15.0'', PStr ''Cloudy'', PInt 80]]"
  by (simp add: save_to_csv_def to_csv_def good_world_def pro_shown_def)

end
